theory Spec2Isabelle
  imports Complex_Main "HOL-Library.Monad_Syntax" "HOL-Library.Multiset" "HOL-Library.Log_Nat"
begin

section \<open>Errors\<close>

text \<open>
  Go errors are values. The errors the two source files build themselves are constructors
  of their own; an error handed back by an external collaborator (a client, a library
  function, a controller initializer) is \<open>External\<close> with its message.
  \<^item> \<open>DoesNotTakeArguments path args\<close> is
    \<^verbatim>\<open>fmt.Errorf("%q does not take any arguments, got %q", cmd.CommandPath(), args)\<close>;
  \<^item> \<open>NoSupportedResources\<close> is
    \<^verbatim>\<open>fmt.Errorf("unable to get any supported resources from server")\<close>;
  \<^item> \<open>APIServerNotHealthy err\<close> is
    \<^verbatim>\<open>fmt.Errorf("failed to wait for apiserver being healthy: %v", err)\<close>;
  \<^item> \<open>UnknownStorageType\<close> is \<^verbatim>\<open>fmt.Errorf("unknown storage type")\<close>.
\<close>

datatype error =
    External string
  | DoesNotTakeArguments string "string list"
  | NoSupportedResources
  | APIServerNotHealthy error
  | UnknownStorageType

section \<open>The internal storage switch of the Clusterpedia controller\<close>

text \<open>
  \<^verbatim>\<open>pkg/controller/clusterpedia/clusterpedia_internelstorage.go\<close>. The API types of
  \<^verbatim>\<open>installv1alpha1\<close> are declared outside the two source files; only the fields the
  switch reads are modelled, a pointer field as an option (\<open>None\<close> is \<^verbatim>\<open>nil\<close>), and the
  contents of the two \<^verbatim>\<open>Local\<close> sections are type parameters.
\<close>

record 'p PostgresStorage =
  PostgresLocal :: "'p option"

record 'm MySQLStorage =
  MySQLLocal :: "'m option"

record ('p, 'm) ClusterpediaStorage =
  Postgres :: "'p PostgresStorage option"
  MySQL :: "'m MySQLStorage option"

record ('p, 'm) ClusterpediaSpec =
  Storage :: "('p, 'm) ClusterpediaStorage"

record ('p, 'm) Clusterpedia =
  Spec :: "('p, 'm) ClusterpediaSpec"

text \<open>
  The controller's methods \<^verbatim>\<open>EnsurePostgres\<close> and \<^verbatim>\<open>EnsureMySQL\<close> are not in the source
  files either: the controller is the record of these two methods, each returning its
  error (\<open>None\<close> is a \<^verbatim>\<open>nil\<close> error).
\<close>

record ('p, 'm) ClusterpediaController =
  EnsurePostgres :: "('p, 'm) Clusterpedia \<Rightarrow> error option"
  EnsureMySQL :: "('p, 'm) Clusterpedia \<Rightarrow> error option"

definition EnsureInternalStorage ::
  "('p, 'm) ClusterpediaController \<Rightarrow> ('p, 'm) Clusterpedia \<Rightarrow> error option" where
  "EnsureInternalStorage ctrl clusterpedia =
     (let storage = Storage (Spec clusterpedia) in
      if (case Postgres storage of None \<Rightarrow> False | Some pg \<Rightarrow> PostgresLocal pg \<noteq> None)
        then EnsurePostgres ctrl clusterpedia
      else if (case MySQL storage of None \<Rightarrow> False | Some my \<Rightarrow> MySQLLocal my \<noteq> None)
        then EnsureMySQL ctrl clusterpedia
      else Some UnknownStorageType)"

section \<open>The command's argument validator\<close>

text \<open>
  The \<^verbatim>\<open>Args\<close> function of the command built by \<^verbatim>\<open>NewControllerManagerCommand\<close>:
  \<^verbatim>\<open>
  for _, arg := range args {
      if len(arg) > 0 {
          return fmt.Errorf("%q does not take any arguments, got %q", cmd.CommandPath(), args)
      }
  }
  return nil
  \<close>
  \<open>ArgsRange\<close> is the loop over the arguments still to visit; it carries the whole
  argument list for the error. The command path comes from the cobra library and is a
  parameter.
\<close>

fun ArgsRange :: "string \<Rightarrow> string list \<Rightarrow> string list \<Rightarrow> error option" where
  "ArgsRange commandPath args [] = None"
| "ArgsRange commandPath args (arg # rest) =
     (if length arg > 0 then Some (DoesNotTakeArguments commandPath args)
      else ArgsRange commandPath args rest)"

definition Args :: "string \<Rightarrow> string list \<Rightarrow> error option" where
  "Args commandPath args = ArgsRange commandPath args args"

section \<open>Resource discovery\<close>

text \<open>
  The discovery types belong to client-go and apimachinery. An \<^verbatim>\<open>APIResourceList\<close> carries
  its group and version as one string and the resources served under it; of an
  \<^verbatim>\<open>APIResource\<close> only the name is read. The entries of the resource list returned by a
  discovery client are pointers; the model takes them as the lists they point to.
\<close>

record APIResource =
  Name :: string

record APIResourceList =
  GroupVersion :: string
  APIResources :: "APIResource list"

record GroupVersion =
  Group :: string
  Version :: string

datatype GroupVersionResource = GroupVersionResource string string string

definition WithResource :: "GroupVersion \<Rightarrow> string \<Rightarrow> GroupVersionResource" where
  "WithResource gv resource = GroupVersionResource (Group gv) (Version gv) resource"

text \<open>
  A discovery client is the record of what its one method used here returns:
  \<^verbatim>\<open>ServerGroupsAndResources()\<close> gives the groups (ignored by the caller), the resource
  lists and an error, and the error may come together with resource lists (a partial
  failure).
\<close>

record DiscoveryInterface =
  ServerGroupsAndResources :: "APIResourceList list \<times> error option"

text \<open>
  \<^verbatim>\<open>schema.ParseGroupVersion\<close> is a function of apimachinery, outside this repository.
  \<open>GetAvailableResources\<close> takes it as the parameter \<open>parseGroupVersion\<close>, and the results
  about it hold for every such function. The library's own function, used at concrete
  inputs, is \<open>schema_ParseGroupVersion\<close>: the empty string and \<^verbatim>\<open>"/"\<close> give the empty
  group and version, a string without a slash is a version of the empty group, a string
  with one slash is split at it, and a string with more slashes is an error.
\<close>

definition schema_ParseGroupVersion :: "string \<Rightarrow> error + GroupVersion" where
  "schema_ParseGroupVersion gv =
     (if length gv = 0 \<or> gv = ''/'' then Inr \<lparr>Group = [], Version = []\<rparr>
      else if count_list gv (CHR ''/'') = 0 then Inr \<lparr>Group = [], Version = gv\<rparr>
      else if count_list gv (CHR ''/'') = 1
        then Inr \<lparr>Group = takeWhile (\<lambda>c. c \<noteq> CHR ''/'') gv,
                  Version = tl (dropWhile (\<lambda>c. c \<noteq> CHR ''/'') gv)\<rparr>
      else Inl (External (''unexpected GroupVersion string: '' @ gv)))"

text \<open>
  The inner loop of \<open>GetAvailableResources\<close>:
  \<^verbatim>\<open>for _, apiResource := range apiResourceList.APIResources {
      allResources[version.WithResource(apiResource.Name)] = true }\<close>
\<close>

fun APIResourcesRange ::
  "GroupVersion \<Rightarrow> APIResource list \<Rightarrow> (GroupVersionResource \<rightharpoonup> bool)
     \<Rightarrow> (GroupVersionResource \<rightharpoonup> bool)" where
  "APIResourcesRange version [] allResources = allResources"
| "APIResourcesRange version (apiResource # rest) allResources =
     APIResourcesRange version rest
       (allResources(WithResource version (Name apiResource) \<mapsto> True))"

text \<open>
  The outer loop: every resource list's group and version is parsed, and a parse error
  is returned at once, with a \<^verbatim>\<open>nil\<close> map.
\<close>

fun resourceMapRange ::
  "(string \<Rightarrow> error + GroupVersion) \<Rightarrow> APIResourceList list
     \<Rightarrow> (GroupVersionResource \<rightharpoonup> bool) \<Rightarrow> error + (GroupVersionResource \<rightharpoonup> bool)" where
  "resourceMapRange parseGroupVersion [] allResources = Inr allResources"
| "resourceMapRange parseGroupVersion (apiResourceList # rest) allResources =
     (case parseGroupVersion (GroupVersion apiResourceList) of
        Inl err \<Rightarrow> Inl err
      | Inr version \<Rightarrow>
          resourceMapRange parseGroupVersion rest
            (APIResourcesRange version (APIResources apiResourceList) allResources))"

text \<open>
  \<open>GetAvailableResources\<close>. The Go function returns a map and an error, and the map is
  \<^verbatim>\<open>nil\<close> whenever the error is not: the result is a sum, \<open>Inl\<close> the error. The error of the
  discovery call itself is only handed to \<^verbatim>\<open>utilruntime.HandleError\<close> (logged), so it does
  not reach the result.
\<close>

definition GetAvailableResources ::
  "(string \<Rightarrow> error + GroupVersion) \<Rightarrow> DiscoveryInterface
     \<Rightarrow> error + (GroupVersionResource \<rightharpoonup> bool)" where
  "GetAvailableResources parseGroupVersion client =
     (case ServerGroupsAndResources client of
        (resourceMap, err) \<Rightarrow>
          if length resourceMap = 0 then Inl NoSupportedResources
          else resourceMapRange parseGroupVersion resourceMap Map.empty)"

text \<open>
  The set of all group-version-resources in a list of resource lists, as the
  specification speaks of it: every resource name of every list, under the group and
  version the list's string parses to.
\<close>

definition returnedResources ::
  "(string \<Rightarrow> error + GroupVersion) \<Rightarrow> APIResourceList list \<Rightarrow> GroupVersionResource set" where
  "returnedResources parseGroupVersion resourceMap =
     (\<Union>l \<in> set resourceMap.
        case parseGroupVersion (GroupVersion l) of
          Inl err \<Rightarrow> {}
        | Inr version \<Rightarrow> (\<lambda>r. WithResource version (Name r)) ` set (APIResources l))"

section \<open>The controller manager: data\<close>

text \<open>
  \<^verbatim>\<open>src/unnamed/part_000\<close> is the \<^verbatim>\<open>app\<close> package of the controller manager. Its collaborators
  (client-go, apimachinery, the generic controller manager, cobra, and the repository's own
  \<^verbatim>\<open>clientbuilder\<close>, \<^verbatim>\<open>config\<close> and controller start functions) are declared elsewhere. Their
  values are modelled as far as the source file reads them: an opaque handle is a constructor
  with a name, an interface with methods is the record of what its methods return, and
  a pointer or interface that may be \<^verbatim>\<open>nil\<close> is an option.

  A \<^verbatim>\<open>time.Duration\<close> is a number of nanoseconds.
\<close>

type_synonym Duration = int

subsection \<open>Clients and client builders\<close>

record Clientset =
  UserAgent :: string
  Discovery :: DiscoveryInterface

datatype DynamicInterface = DynamicClient string

datatype KarmadaFireflyClientset = KarmadaFireflyClient string

datatype KarmadaClientset = KarmadaClient string

datatype FireflyClientset = FireflyClient string

datatype MetadataInterface = MetadataClient string

datatype RestConfig = RestConfig string

text \<open>
  The two client builders of \<^verbatim>\<open>pkg/clientbuilder\<close>. Every method is given a user agent name
  and ends the process when it cannot build its client: \<open>None\<close> is that exit.
\<close>

record KarmadaControllerClientBuilder =
  ClientOrDie :: "string \<Rightarrow> Clientset option"
  DynamicClientOrDie :: "string \<Rightarrow> DynamicInterface option"
  KarmadaFireflyClientOrDie :: "string \<Rightarrow> KarmadaFireflyClientset option"
  ConfigOrDie :: "string \<Rightarrow> RestConfig option"
  DiscoveryClientOrDie :: "string \<Rightarrow> DiscoveryInterface option"

record FireflyControllerClientBuilder =
  ClientOrDie :: "string \<Rightarrow> Clientset option"
  DynamicClientOrDie :: "string \<Rightarrow> DynamicInterface option"
  ConfigOrDie :: "string \<Rightarrow> RestConfig option"

subsection \<open>Informer factories and the REST mapper\<close>

text \<open>
  An informer factory is the constructor call that made it; the constructors are, in
  this order, \<^verbatim>\<open>informers.NewSharedInformerFactory\<close>,
  \<^verbatim>\<open>dynamicinformer.NewDynamicSharedInformerFactory\<close>,
  \<^verbatim>\<open>karmadafireflyinformers.NewSharedInformerFactory\<close>,
  \<^verbatim>\<open>karmadainformers.NewSharedInformerFactory\<close>,
  \<^verbatim>\<open>metadatainformer.NewSharedInformerFactory\<close>,
  \<^verbatim>\<open>fireflyinformers.NewFilteredSharedInformerFactory\<close> (its last argument, the tweak
  function, is always \<^verbatim>\<open>nil\<close>) and \<^verbatim>\<open>informerfactory.NewInformerFactory\<close>.
\<close>

datatype InformerFactory =
    NewSharedInformerFactory Clientset Duration
  | NewDynamicSharedInformerFactory DynamicInterface Duration
  | NewKarmadaFireflySharedInformerFactory KarmadaFireflyClientset Duration
  | NewKarmadaSharedInformerFactory KarmadaClientset Duration
  | NewMetadataSharedInformerFactory MetadataInterface Duration
  | NewFilteredSharedInformerFactory FireflyClientset Duration string
  | NewInformerFactory InformerFactory InformerFactory

datatype CachedDiscoveryInterface = NewMemCacheClient DiscoveryInterface

datatype DeferredDiscoveryRESTMapper = NewDeferredDiscoveryRESTMapper CachedDiscoveryInterface

subsection \<open>Configuration\<close>

record LeaderElectionConfiguration =
  LeaderElect :: bool
  ResourceLock :: string
  ResourceName :: string

record LeaderMigrationConfiguration =
  LeaderName :: string
  ResourceLock :: string

record GenericControllerManagerConfiguration =
  MinResyncPeriod :: Duration
  ControllerStartInterval :: Duration
  Controllers :: "string list"
  LeaderElection :: LeaderElectionConfiguration
  LeaderMigration :: LeaderMigrationConfiguration

record FireflyKarmadaManagerConfiguration =
  Generic :: GenericControllerManagerConfiguration

text \<open>
  The secure serving info is the result of its \<^verbatim>\<open>Serve\<close> method, of which only the error
  is read.
\<close>

record SecureServingInfo =
  Serve :: "error option"

record CompletedConfig =
  ComponentConfig :: FireflyKarmadaManagerConfiguration
  SecureServing :: "SecureServingInfo option"
  KarmadaKubeconfig :: RestConfig
  FireflyKubeconfig :: RestConfig
  EstimatorNamespace :: string
  KarmadaName :: string

subsection \<open>Channels\<close>

text \<open>
  A channel of \<^verbatim>\<open>struct{}\<close> that is only ever closed is one flag. The channels made so
  far are a list of flags, true for a closed channel, and a channel is its index in the
  list. \<^verbatim>\<open>make\<close> appends an open channel. \<^verbatim>\<open>close\<close> panics on a \<^verbatim>\<open>nil\<close> channel and on
  a closed channel, as Go does: \<open>None\<close> is the panic. On an open channel it returns the
  channel it closed and the channels after the close.
\<close>

type_synonym chan = nat

type_synonym chans = "bool list"

definition make_chan :: "chans \<Rightarrow> chan \<times> chans" where
  "make_chan cs = (length cs, cs @ [False])"

definition close_chan :: "chan option \<Rightarrow> chans \<Rightarrow> (chan \<times> chans) option" where
  "close_chan ch cs =
     (case ch of
        None \<Rightarrow> None
      | Some c \<Rightarrow> if c < length cs \<and> \<not> cs ! c then Some (c, cs[c := True]) else None)"

subsection \<open>The controller context\<close>

text \<open>
  The field \<^verbatim>\<open>ResyncPeriod\<close> of the context holds the closure \<^verbatim>\<open>ResyncPeriod(s)\<close>; the
  closure is the constructor \<open>ResyncPeriodOf\<close> with the minimum resync period it reads from
  the configuration. What an invocation of the closure returns is the product of that
  period and a pseudo-random \<^verbatim>\<open>float64\<close>: \<open>ResyncPeriod_closure\<close> below computes it from
  the value that \<^verbatim>\<open>rand.Float64()\<close> returns. The durations that the invocations made by
  \<^verbatim>\<open>CreateControllerContext\<close> return are taken from the environment (see below).
\<close>

datatype ResyncPeriodFunc = ResyncPeriodOf Duration

record ControllerContext =
  KarmadaClientBuilder :: "KarmadaControllerClientBuilder option"
  FireflyClientBuilder :: "FireflyControllerClientBuilder option"
  KarmadaDynamicInformerFactory :: "InformerFactory option"
  KarmadaKubeInformerFactory :: "InformerFactory option"
  KarmadaFireflyInformerFactory :: "InformerFactory option"
  KarmadaInformerFactory :: "InformerFactory option"
  FireflyDynamicInformerFactory :: "InformerFactory option"
  FireflyKubeInformerFactory :: "InformerFactory option"
  FireflyInformerFactory :: "InformerFactory option"
  EstimatorNamespace :: string
  KarmadaName :: string
  ObjectOrMetadataInformerFactory :: "InformerFactory option"
  ComponentConfig :: FireflyKarmadaManagerConfiguration
  RESTMapper :: "DeferredDiscoveryRESTMapper option"
  AvailableResources :: "(GroupVersionResource \<rightharpoonup> bool) option"
  HostClusterAvailableResources :: "(GroupVersionResource \<rightharpoonup> bool) option"
  InformersStarted :: "chan option"
  ResyncPeriod :: "ResyncPeriodFunc option"

text \<open>
  \<^verbatim>\<open>ControllerContext{}\<close>, the zero value: every interface, pointer, map, channel and
  function field is \<^verbatim>\<open>nil\<close>, every string empty, every number zero and every boolean
  false.
\<close>

definition ControllerContext_zero :: ControllerContext where
  "ControllerContext_zero =
     \<lparr>KarmadaClientBuilder = None,
      FireflyClientBuilder = None,
      KarmadaDynamicInformerFactory = None,
      KarmadaKubeInformerFactory = None,
      KarmadaFireflyInformerFactory = None,
      KarmadaInformerFactory = None,
      FireflyDynamicInformerFactory = None,
      FireflyKubeInformerFactory = None,
      FireflyInformerFactory = None,
      EstimatorNamespace = [],
      KarmadaName = [],
      ObjectOrMetadataInformerFactory = None,
      ComponentConfig =
        \<lparr>Generic =
           \<lparr>MinResyncPeriod = 0,
            ControllerStartInterval = 0,
            Controllers = [],
            LeaderElection =
              \<lparr>LeaderElect = False, LeaderElectionConfiguration.ResourceLock = [],
               ResourceName = []\<rparr>,
            LeaderMigration = \<lparr>LeaderName = [], ResourceLock = []\<rparr>\<rparr>\<rparr>,
      RESTMapper = None,
      AvailableResources = None,
      HostClusterAvailableResources = None,
      InformersStarted = None,
      ResyncPeriod = None\<rparr>"

subsection \<open>Controllers and health checks\<close>

text \<open>
  A controller handle (\<^verbatim>\<open>controller.Interface\<close>) may implement two more interfaces. The
  field \<open>asDebuggable\<close> is the result of the type assertion
  \<^verbatim>\<open>ctrl.(controller.Debuggable)\<close>, \<open>None\<close> when the handle does not implement the
  interface, and \<open>asHealthCheckable\<close> is that of \<^verbatim>\<open>ctrl.(controller.HealthCheckable)\<close>.
  The methods \<^verbatim>\<open>DebuggingHandler()\<close> and \<^verbatim>\<open>HealthChecker()\<close> may themselves return
  \<^verbatim>\<open>nil\<close>.
\<close>

datatype HttpHandler = Handler string | StripPrefix string HttpHandler

datatype UnnamedHealthChecker = UnnamedHealthChecker string

record Debuggable =
  DebuggingHandler :: "HttpHandler option"

record HealthCheckable =
  HealthChecker :: "UnnamedHealthChecker option"

record Controller =
  asDebuggable :: "Debuggable option"
  asHealthCheckable :: "HealthCheckable option"

text \<open>
  The health checks: \<^verbatim>\<open>controllerhealthz.NamedPingChecker(name)\<close>,
  \<^verbatim>\<open>controllerhealthz.NamedHealthChecker(name, check)\<close> and the leader election watchdog
  \<^verbatim>\<open>leaderelection.NewLeaderHealthzAdaptor(timeout)\<close>.
\<close>

datatype HealthzChecker =
    NamedPingChecker string
  | NamedHealthChecker string UnnamedHealthChecker
  | NewLeaderHealthzAdaptor Duration

text \<open>
  An \<^verbatim>\<open>InitFunc\<close> returns the controller handle, whether the controller was started, and
  an error. An initializer is modelled by what it returns, as a function of the
  controller context it is given; the registry is the list of the entries of the Go map,
  and \<open>ControllerInitializersFunc\<close>, a function without arguments in Go, is its result.
\<close>

type_synonym InitFunc = "ControllerContext \<Rightarrow> Controller option \<times> bool \<times> error option"

type_synonym ControllerInitializersFunc = "(string \<times> InitFunc) list"

subsection \<open>Leader migration\<close>

text \<open>
  The \<^verbatim>\<open>leadermigration\<close> package: the result of a filter function, and the migrator with
  its filter function and its channel \<^verbatim>\<open>MigrationReady\<close>. The channel is made and owned by
  the migrator; nothing in the source file closes it or sends on it. The field says
  whether a receive on it ever completes.
\<close>

datatype FilterResult = ControllerUnowned | ControllerMigrated | ControllerNonMigrated

record LeaderMigrator =
  MigrationReady :: bool
  FilterFunc :: "string \<Rightarrow> FilterResult"

subsection \<open>The environment\<close>

text \<open>
  The functions that the source file calls and does not define, gathered in one record.
  The results below hold for every environment.
  \<^item> \<open>genericIsControllerEnabled\<close> is \<^verbatim>\<open>genericcontrollermanager.IsControllerEnabled\<close>;
  \<^item> \<open>ParseGroupVersion\<close> is \<^verbatim>\<open>schema.ParseGroupVersion\<close>;
  \<^item> \<open>WaitForAPIServer\<close> is \<^verbatim>\<open>genericcontrollermanager.WaitForAPIServer\<close> with its timeout of
    ten seconds;
  \<^item> \<open>karmadaNewForConfigOrDie\<close>, \<open>fireflyNewForConfigOrDie\<close> and
    \<open>metadataNewForConfigOrDie\<close> are \<^verbatim>\<open>NewForConfigOrDie\<close> of \<^verbatim>\<open>karmadaversioned\<close>,
    \<^verbatim>\<open>fireflyversioned\<close> and \<^verbatim>\<open>metadata\<close>, \<open>None\<close> when the process ends;
  \<^item> \<open>resyncPeriods n\<close> is the duration returned by the invocation of the closure
    \<^verbatim>\<open>ResyncPeriod(s)\<close> that builds the \<open>n\<close>-th informer factory of a context;
  \<^item> \<open>NewSimpleKarmadaControllerClientBuilder\<close> and
    \<open>NewSimpleFireflyControllerClientBuilder\<close> are the constructors of \<^verbatim>\<open>clientbuilder\<close>;
  \<^item> \<open>startEstimatorController\<close>, \<open>startNodeController\<close>, \<open>startFooController\<close> and
    \<open>startKubeanController\<close> are the initializers of this package, defined in another
    file;
  \<^item> \<open>rangeOrder\<close> is the order in which a \<^verbatim>\<open>range\<close> loop visits the entries of a map of
    initializers, which Go leaves open; the loop visits every entry once, and a result
    that speaks of every entry of a registry takes \<open>rangeOrder\<close> to permute it;
  \<^item> \<open>Hostname\<close> is \<^verbatim>\<open>os.Hostname()\<close> and \<open>NewUUID\<close> is \<^verbatim>\<open>uuid.NewUUID()\<close>;
  \<^item> \<open>leadermigrationEnabled\<close> is \<^verbatim>\<open>leadermigration.Enabled\<close> and \<open>NewLeaderMigrator\<close> is
    \<^verbatim>\<open>leadermigration.NewLeaderMigrator\<close>.
\<close>

record Environment =
  genericIsControllerEnabled :: "string \<Rightarrow> string set \<Rightarrow> string list \<Rightarrow> bool"
  ParseGroupVersion :: "string \<Rightarrow> error + GroupVersion"
  WaitForAPIServer :: "Clientset \<Rightarrow> error option"
  karmadaNewForConfigOrDie :: "RestConfig \<Rightarrow> KarmadaClientset option"
  fireflyNewForConfigOrDie :: "RestConfig \<Rightarrow> FireflyClientset option"
  metadataNewForConfigOrDie :: "RestConfig \<Rightarrow> MetadataInterface option"
  resyncPeriods :: "nat \<Rightarrow> Duration"
  NewSimpleKarmadaControllerClientBuilder :: "RestConfig \<Rightarrow> KarmadaControllerClientBuilder"
  NewSimpleFireflyControllerClientBuilder :: "RestConfig \<Rightarrow> FireflyControllerClientBuilder"
  startEstimatorController :: InitFunc
  startNodeController :: InitFunc
  startFooController :: InitFunc
  startKubeanController :: InitFunc
  rangeOrder :: "(string \<times> InitFunc) list \<Rightarrow> (string \<times> InitFunc) list"
  Hostname :: "string \<times> error option"
  NewUUID :: string
  leadermigrationEnabled :: "GenericControllerManagerConfiguration \<Rightarrow> bool"
  NewLeaderMigrator :: "LeaderMigrationConfiguration \<Rightarrow> string \<Rightarrow> LeaderMigrator"

text \<open>
  The library's \<^verbatim>\<open>IsControllerEnabled\<close>, used at concrete inputs, as the \<^verbatim>\<open>--controllers\<close>
  flag documents it: a controller named in the list is enabled, one named with a leading
  minus sign is disabled, whichever comes first; a controller not named is enabled when
  the list has a star and the controller is not in the set of controllers disabled by
  default.
\<close>

fun generic_IsControllerEnabled_range :: "string \<Rightarrow> string list \<Rightarrow> bool \<Rightarrow> bool option \<times> bool" where
  "generic_IsControllerEnabled_range name [] hasStar = (None, hasStar)"
| "generic_IsControllerEnabled_range name (ctrl # rest) hasStar =
     (if ctrl = name then (Some True, hasStar)
      else if ctrl = ''-'' @ name then (Some False, hasStar)
      else generic_IsControllerEnabled_range name rest (if ctrl = ''*'' then True else hasStar))"

definition generic_IsControllerEnabled :: "string \<Rightarrow> string set \<Rightarrow> string list \<Rightarrow> bool" where
  "generic_IsControllerEnabled name disabledByDefaultControllers controllers =
     (case generic_IsControllerEnabled_range name controllers False of
        (Some choice, hasStar) \<Rightarrow> choice
      | (None, hasStar) \<Rightarrow>
          if \<not> hasStar then False else name \<notin> disabledByDefaultControllers)"

section \<open>The controller manager: operations\<close>

subsection \<open>Observable calls\<close>

text \<open>
  What the supervisor does to the world is recorded as the list of the calls it makes,
  oldest first:
  \<^item> \<open>Sleep\<close>: \<^verbatim>\<open>time.Sleep\<close> of the jittered start interval (the length of the sleep
    is a pseudo-random \<^verbatim>\<open>float64\<close> product and is not recorded);
  \<^item> \<open>Invoke name\<close>: the initializer registered under \<open>name\<close> is called;
  \<^item> \<open>UnlistedHandle path h\<close> and \<open>UnlistedHandlePrefix path h\<close>: the calls of these
    methods of the unsecured mux;
  \<^item> \<open>AddHealthChecker checks\<close>: the call of this method of the health handler;
  \<^item> \<open>Start f\<close>: the call \<^verbatim>\<open>f.Start(stopCh)\<close> of an informer factory;
  \<^item> \<open>Close c\<close>: \<^verbatim>\<open>close(c)\<close>, when it does not panic;
  \<^item> \<open>Receive r\<close>: a receive from a channel that completed;
  \<^item> \<open>NewMutableHealthzHandler checks\<close>: the health handler is built with these checks;
  \<^item> \<open>ServeSecurely\<close>: the call of \<^verbatim>\<open>c.SecureServing.Serve\<close>;
  \<^item> \<open>GoLeaderElectAndRun lock lockIdentity resourceLock leaseName initializers\<close>: one of the two
    statements \<^verbatim>\<open>go leaderElectAndRun(...)\<close> of \<open>Run\<close>, the one that starts the main
    lock or the one that starts the migration lock, with the lock identity, the lock
    kind, the lease name and the initializers its \<^verbatim>\<open>OnStartedLeading\<close> callback hands
    to \<^verbatim>\<open>run\<close>.
  Logging, the event broadcaster, configz and the goroutine that resets the REST mapper
  are not recorded.
\<close>

datatype Receiver = CtxDone | StopCh | MigrationReadyCh

datatype Initializers = AllInitializers | FilteredInitializers FilterResult

datatype Lock = MainLock | MigrationLock

datatype Call =
    Sleep
  | Invoke string
  | UnlistedHandle string HttpHandler
  | UnlistedHandlePrefix string HttpHandler
  | AddHealthChecker "HealthzChecker list"
  | Start InformerFactory
  | Close chan
  | Receive Receiver
  | NewMutableHealthzHandler "HealthzChecker list"
  | ServeSecurely
  | GoLeaderElectAndRun Lock string string string Initializers

text \<open>The names of the initializers called, and the health checks registered, in a list of calls.\<close>

fun invoked :: "Call list \<Rightarrow> string list" where
  "invoked [] = []"
| "invoked (Invoke name # calls) = name # invoked calls"
| "invoked (c # calls) = invoked calls"

fun registered :: "Call list \<Rightarrow> HealthzChecker list" where
  "registered [] = []"
| "registered (AddHealthChecker checks # calls) = checks @ registered calls"
| "registered (c # calls) = registered calls"

subsection \<open>Enablement policy\<close>

definition ControllersDisabledByDefault :: "string set" where
  "ControllersDisabledByDefault = {}"

definition IsControllerEnabled :: "Environment \<Rightarrow> ControllerContext \<Rightarrow> string \<Rightarrow> bool" where
  "IsControllerEnabled env c name =
     genericIsControllerEnabled env name ControllersDisabledByDefault
       (Controllers (Generic (ComponentConfig c)))"

subsection \<open>StartControllers\<close>

text \<open>
  The unsecured mux is a pointer that \<open>Run\<close> leaves \<^verbatim>\<open>nil\<close> without secure serving. The
  health handler is a pointer too; \<open>Run\<close> always builds it, and the model takes it as
  built.
\<close>

datatype PathRecorderMux = NewBaseHandler

text \<open>
  The body of the loop after the initializer returned without error and with
  \<^verbatim>\<open>started\<close> true: the calls mounting the debug handler, and the health check.
  \<^verbatim>\<open>
  check := controllerhealthz.NamedPingChecker(controllerName)
  if ctrl != nil {
      if debuggable, ok := ctrl.(controller.Debuggable); ok && unsecuredMux != nil {
          if debugHandler := debuggable.DebuggingHandler(); debugHandler != nil {
              basePath := "/debug/controllers/" + controllerName
              unsecuredMux.UnlistedHandle(basePath, http.StripPrefix(basePath, debugHandler))
              unsecuredMux.UnlistedHandlePrefix(basePath+"/", http.StripPrefix(basePath, debugHandler))
          }
      }
      if healthCheckable, ok := ctrl.(controller.HealthCheckable); ok {
          if realCheck := healthCheckable.HealthChecker(); realCheck != nil {
              check = controllerhealthz.NamedHealthChecker(controllerName, realCheck)
          }
      }
  }
  \<close>
\<close>

definition mountDebugHandler ::
  "string \<Rightarrow> Controller option \<Rightarrow> PathRecorderMux option \<Rightarrow> Call list" where
  "mountDebugHandler controllerName ctrl unsecuredMux =
     (case ctrl of
        None \<Rightarrow> []
      | Some c \<Rightarrow>
          (case asDebuggable c of
             None \<Rightarrow> []
           | Some debuggable \<Rightarrow>
               if unsecuredMux \<noteq> None then
                 (case DebuggingHandler debuggable of
                    None \<Rightarrow> []
                  | Some debugHandler \<Rightarrow>
                      (let basePath = ''/debug/controllers/'' @ controllerName in
                       [UnlistedHandle basePath (StripPrefix basePath debugHandler),
                        UnlistedHandlePrefix (basePath @ ''/'')
                          (StripPrefix basePath debugHandler)]))
               else []))"

definition healthCheck :: "string \<Rightarrow> Controller option \<Rightarrow> HealthzChecker" where
  "healthCheck controllerName ctrl =
     (let check = NamedPingChecker controllerName in
      case ctrl of
        None \<Rightarrow> check
      | Some c \<Rightarrow>
          (case asHealthCheckable c of
             None \<Rightarrow> check
           | Some healthCheckable \<Rightarrow>
               (case HealthChecker healthCheckable of
                  None \<Rightarrow> check
                | Some realCheck \<Rightarrow> NamedHealthChecker controllerName realCheck)))"

text \<open>
  The loop of \<open>StartControllers\<close> over the entries still to visit, with the health checks
  gathered so far. It returns the error of the initializer that failed, or else the health
  checks gathered, together with the calls made.
\<close>

fun StartControllersRange ::
  "Environment \<Rightarrow> ControllerContext \<Rightarrow> PathRecorderMux option \<Rightarrow> (string \<times> InitFunc) list
     \<Rightarrow> HealthzChecker list \<Rightarrow> (error + HealthzChecker list) \<times> Call list" where
  "StartControllersRange env controllerCtx unsecuredMux [] controllerChecks =
     (Inr controllerChecks, [])"
| "StartControllersRange env controllerCtx unsecuredMux ((controllerName, initFn) # rest)
       controllerChecks =
     (if \<not> IsControllerEnabled env controllerCtx controllerName
        then StartControllersRange env controllerCtx unsecuredMux rest controllerChecks
      else
        (case initFn controllerCtx of
           (ctrl, started, Some err) \<Rightarrow> (Inl err, [Sleep, Invoke controllerName])
         | (ctrl, started, None) \<Rightarrow>
             if \<not> started then
               (case StartControllersRange env controllerCtx unsecuredMux rest controllerChecks of
                  (result, calls) \<Rightarrow> (result, [Sleep, Invoke controllerName] @ calls))
             else
               (case StartControllersRange env controllerCtx unsecuredMux rest
                       (controllerChecks @ [healthCheck controllerName ctrl]) of
                  (result, calls) \<Rightarrow>
                    (result,
                     [Sleep, Invoke controllerName]
                       @ mountDebugHandler controllerName ctrl unsecuredMux @ calls))))"

text \<open>
  \<open>StartControllers\<close> is given the entries of the map of initializers in the order in which
  the \<^verbatim>\<open>range\<close> loop visits them. It returns its error and the calls it made; the health
  checks are handed to the health handler in one call, after the loop, and only when no
  initializer failed.
\<close>

definition StartControllers ::
  "Environment \<Rightarrow> ControllerContext \<Rightarrow> (string \<times> InitFunc) list \<Rightarrow> PathRecorderMux option
     \<Rightarrow> error option \<times> Call list" where
  "StartControllers env controllerCtx controllers unsecuredMux =
     (case StartControllersRange env controllerCtx unsecuredMux controllers [] of
        (Inl err, calls) \<Rightarrow> (Some err, calls)
      | (Inr controllerChecks, calls) \<Rightarrow> (None, calls @ [AddHealthChecker controllerChecks]))"

text \<open>
  The health check the specification gives a started controller: its own health checker
  under its name when the handle is there, implements the health-checkable capability and
  has a checker, and the ping check under its name in every other case.
\<close>

definition ownHealthChecker :: "Controller option \<Rightarrow> UnnamedHealthChecker option" where
  "ownHealthChecker ctrl =
     Option.bind ctrl (\<lambda>c. Option.bind (asHealthCheckable c) HealthChecker)"

definition expectedHealthCheck :: "string \<Rightarrow> Controller option \<Rightarrow> HealthzChecker" where
  "expectedHealthCheck controllerName ctrl =
     (case ownHealthChecker ctrl of
        Some checker \<Rightarrow> NamedHealthChecker controllerName checker
      | None \<Rightarrow> NamedPingChecker controllerName)"
subsection \<open>The entries of a registry\<close>

text \<open>
  For a registry in visiting order: the entries enabled by policy, of these the entries
  whose initializer reports that it started, and the errors that the initializers of the
  enabled entries return.
\<close>

definition enabledEntries ::
  "Environment \<Rightarrow> ControllerContext \<Rightarrow> (string \<times> InitFunc) list \<Rightarrow> (string \<times> InitFunc) list" where
  "enabledEntries env controllerCtx controllers =
     filter (\<lambda>(name, initFn). IsControllerEnabled env controllerCtx name) controllers"

definition startedEntries ::
  "Environment \<Rightarrow> ControllerContext \<Rightarrow> (string \<times> InitFunc) list \<Rightarrow> (string \<times> InitFunc) list" where
  "startedEntries env controllerCtx controllers =
     filter (\<lambda>(name, initFn). fst (snd (initFn controllerCtx)))
       (enabledEntries env controllerCtx controllers)"

definition initializerErrors ::
  "Environment \<Rightarrow> ControllerContext \<Rightarrow> (string \<times> InitFunc) list \<Rightarrow> error list" where
  "initializerErrors env controllerCtx controllers =
     List.map_filter (\<lambda>(name, initFn). snd (snd (initFn controllerCtx)))
       (enabledEntries env controllerCtx controllers)"

text \<open>Whether a call registers health checks with the health handler.\<close>

fun isAddHealthChecker :: "Call \<Rightarrow> bool" where
  "isAddHealthChecker (AddHealthChecker checks) = True"
| "isAddHealthChecker c = False"
subsection \<open>The registry of initializers\<close>

text \<open>
  \<open>NewControllerInitializers\<close> builds the map of the four controllers of this package;
  \<open>createInitializersFunc\<close> keeps the entries that the filter function maps to the
  expected result.
\<close>

definition NewControllerInitializers :: "Environment \<Rightarrow> ControllerInitializersFunc" where
  "NewControllerInitializers env =
     [(''estimator'', startEstimatorController env),
      (''node'', startNodeController env),
      (''foo'', startFooController env),
      (''kubean'', startKubeanController env)]"

definition createInitializersFunc ::
  "Environment \<Rightarrow> (string \<Rightarrow> FilterResult) \<Rightarrow> FilterResult \<Rightarrow> ControllerInitializersFunc" where
  "createInitializersFunc env filterFunc expected =
     filter (\<lambda>(name, initializer). filterFunc name = expected) (NewControllerInitializers env)"

subsection \<open>Available resources of the two clusters\<close>

text \<open>
  Both functions build a client with \<^verbatim>\<open>ClientOrDie("controller-discovery")\<close>, which may end
  the process (\<open>None\<close>), and hand its discovery client to \<open>GetAvailableResources\<close>.
\<close>

definition GetKarmadaAvailableResources ::
  "Environment \<Rightarrow> KarmadaControllerClientBuilder
     \<Rightarrow> (error + (GroupVersionResource \<rightharpoonup> bool)) option" where
  "GetKarmadaAvailableResources env clientBuilder = do {
     client \<leftarrow> KarmadaControllerClientBuilder.ClientOrDie clientBuilder ''controller-discovery'';
     let discoveryClient = Discovery client;
     Some (GetAvailableResources (ParseGroupVersion env) discoveryClient)
   }"

definition GetHostClusterAvailableResources ::
  "Environment \<Rightarrow> FireflyControllerClientBuilder
     \<Rightarrow> (error + (GroupVersionResource \<rightharpoonup> bool)) option" where
  "GetHostClusterAvailableResources env clientBuilder = do {
     client \<leftarrow> FireflyControllerClientBuilder.ClientOrDie clientBuilder ''controller-discovery'';
     let discoveryClient = Discovery client;
     Some (GetAvailableResources (ParseGroupVersion env) discoveryClient)
   }"

subsection \<open>CreateControllerContext\<close>

text \<open>
  \<open>CreateControllerContext\<close> follows the source statement by statement. It is given the
  channels made so far and returns them with the context and the error, since the context
  holds a channel made here. The result \<open>None\<close> is the end of the process in one of the
  \<^verbatim>\<open>OrDie\<close> calls. The stop channel is used only by the goroutine that resets the REST
  mapper every thirty seconds, which is not modelled, and is left out.
\<close>

definition CreateControllerContext ::
  "Environment \<Rightarrow> CompletedConfig \<Rightarrow> KarmadaControllerClientBuilder
     \<Rightarrow> FireflyControllerClientBuilder \<Rightarrow> chans
     \<Rightarrow> (ControllerContext \<times> error option \<times> chans) option" where
  "CreateControllerContext env s karmadaClientBuilder fireflyKubeClientBuilder cs = do {
     karmadaKubeClient \<leftarrow>
       KarmadaControllerClientBuilder.ClientOrDie karmadaClientBuilder
         ''karmada-kube-shared-informers'';
     let karmadaKubeSharedInformers =
       NewSharedInformerFactory karmadaKubeClient (resyncPeriods env 0);
     karmadaDynamicClient \<leftarrow>
       KarmadaControllerClientBuilder.DynamicClientOrDie karmadaClientBuilder
         ''karmada-dynamic-shared-informers'';
     let karmadaDynamicSharedInformers =
       NewDynamicSharedInformerFactory karmadaDynamicClient (resyncPeriods env 1);
     karmadaFireflyClient \<leftarrow>
       KarmadaFireflyClientOrDie karmadaClientBuilder ''karmada-firefly-shared-informers'';
     let karmadaFireflySharedInformers =
       NewKarmadaFireflySharedInformerFactory karmadaFireflyClient (resyncPeriods env 2);
     clientConfig \<leftarrow>
       KarmadaControllerClientBuilder.ConfigOrDie karmadaClientBuilder
         ''karmada-shared-informers'';
     karmadaClient \<leftarrow> karmadaNewForConfigOrDie env clientConfig;
     let karmadaSharedInformers =
       NewKarmadaSharedInformerFactory karmadaClient (resyncPeriods env 3);
     metadataConfig \<leftarrow>
       KarmadaControllerClientBuilder.ConfigOrDie karmadaClientBuilder
         ''firefly-metadata-informers'';
     metadataClient \<leftarrow> metadataNewForConfigOrDie env metadataConfig;
     let metadataInformers =
       NewMetadataSharedInformerFactory metadataClient (resyncPeriods env 4);
     (case WaitForAPIServer env karmadaKubeClient of
        Some err \<Rightarrow> Some (ControllerContext_zero, Some (APIServerNotHealthy err), cs)
      | None \<Rightarrow> do {
          fireflyKubeClient \<leftarrow>
            FireflyControllerClientBuilder.ClientOrDie fireflyKubeClientBuilder
              ''firefly-kube-shared-informers'';
          let fireflyKubeSharedInformers =
            NewSharedInformerFactory fireflyKubeClient (resyncPeriods env 5);
          fireflyDynamicClient \<leftarrow>
            FireflyControllerClientBuilder.DynamicClientOrDie fireflyKubeClientBuilder
              ''firefly-dynamic-shared-informers'';
          let fireflyDynamicSharedInformers =
            NewDynamicSharedInformerFactory fireflyDynamicClient (resyncPeriods env 6);
          fireflyClientConfig \<leftarrow>
            FireflyControllerClientBuilder.ConfigOrDie fireflyKubeClientBuilder
              ''firefly-shared-informers'';
          fireflyClient \<leftarrow> fireflyNewForConfigOrDie env fireflyClientConfig;
          let fireflySharedInformers =
            NewFilteredSharedInformerFactory fireflyClient (resyncPeriods env 7)
              (CompletedConfig.EstimatorNamespace s);
          (case WaitForAPIServer env fireflyKubeClient of
             Some err \<Rightarrow> Some (ControllerContext_zero, Some (APIServerNotHealthy err), cs)
           | None \<Rightarrow> do {
               discoveryClient \<leftarrow>
                 DiscoveryClientOrDie karmadaClientBuilder ''firelfy-controller-discovery'';
               let cachedClient = NewMemCacheClient discoveryClient;
               let restMapper = NewDeferredDiscoveryRESTMapper cachedClient;
               availableResources \<leftarrow> GetKarmadaAvailableResources env karmadaClientBuilder;
               (case availableResources of
                  Inl err \<Rightarrow> Some (ControllerContext_zero, Some err, cs)
                | Inr availableResources \<Rightarrow> do {
                    hostClusterAvailableResources \<leftarrow>
                      GetHostClusterAvailableResources env fireflyKubeClientBuilder;
                    (case hostClusterAvailableResources of
                       Inl err \<Rightarrow> Some (ControllerContext_zero, Some err, cs)
                     | Inr hostClusterAvailableResources \<Rightarrow>
                         (case make_chan cs of
                            (informersStarted, cs') \<Rightarrow>
                              Some
                                (\<lparr>KarmadaClientBuilder = Some karmadaClientBuilder,
                                  FireflyClientBuilder = Some fireflyKubeClientBuilder,
                                  KarmadaDynamicInformerFactory =
                                    Some karmadaDynamicSharedInformers,
                                  KarmadaKubeInformerFactory = Some karmadaKubeSharedInformers,
                                  KarmadaFireflyInformerFactory =
                                    Some karmadaFireflySharedInformers,
                                  KarmadaInformerFactory = Some karmadaSharedInformers,
                                  FireflyDynamicInformerFactory =
                                    Some fireflyDynamicSharedInformers,
                                  FireflyKubeInformerFactory = Some fireflyKubeSharedInformers,
                                  FireflyInformerFactory = Some fireflySharedInformers,
                                  EstimatorNamespace = CompletedConfig.EstimatorNamespace s,
                                  KarmadaName = CompletedConfig.KarmadaName s,
                                  ObjectOrMetadataInformerFactory =
                                    Some (NewInformerFactory karmadaKubeSharedInformers
                                            metadataInformers),
                                  ComponentConfig = CompletedConfig.ComponentConfig s,
                                  RESTMapper = Some restMapper,
                                  AvailableResources = Some availableResources,
                                  HostClusterAvailableResources =
                                    Some hostClusterAvailableResources,
                                  InformersStarted = Some informersStarted,
                                  ResyncPeriod =
                                    Some (ResyncPeriodOf
                                      (MinResyncPeriod
                                        (Generic (CompletedConfig.ComponentConfig s))))\<rparr>,
                                 None, cs')))
                  })
             })
        })
   }"

subsection \<open>The run closure\<close>

text \<open>
  How a function ends: it returns (with its error, for a function that has one), the
  process exits (\<^verbatim>\<open>klog.Fatalf\<close>, or an \<^verbatim>\<open>OrDie\<close> call), it panics, or it waits forever on
  a receive that never completes.
\<close>

datatype Status = Returned "error option" | Exited | Panicked | Blocked

text \<open>
  The eight \<^verbatim>\<open>Start\<close> calls of \<open>run\<close>, in the order of the source. A method call on a
  \<^verbatim>\<open>nil\<close> interface panics: the result is false then, with the calls made before.
\<close>

definition informerFactories :: "ControllerContext \<Rightarrow> InformerFactory option list" where
  "informerFactories controllerContext =
     [KarmadaDynamicInformerFactory controllerContext,
      KarmadaKubeInformerFactory controllerContext,
      KarmadaInformerFactory controllerContext,
      KarmadaFireflyInformerFactory controllerContext,
      FireflyDynamicInformerFactory controllerContext,
      FireflyKubeInformerFactory controllerContext,
      FireflyInformerFactory controllerContext,
      ObjectOrMetadataInformerFactory controllerContext]"

fun startInformerFactories :: "InformerFactory option list \<Rightarrow> bool \<times> Call list" where
  "startInformerFactories [] = (True, [])"
| "startInformerFactories (None # rest) = (False, [])"
| "startInformerFactories (Some factory # rest) =
     (case startInformerFactories rest of (ok, calls) \<Rightarrow> (ok, Start factory # calls))"

text \<open>
  The closure \<open>run\<close> of \<open>Run\<close>, with the variables it captures as arguments. \<open>ctxDone\<close>
  says whether the context \<open>ctx\<close> is ever done. The map returned by the initializers
  function is handed to \<open>StartControllers\<close> in the order in which its loop visits it.
  \<^verbatim>\<open>
  controllerContext, err := CreateControllerContext(c, karmadaClientBuilder, fireflyKubeClientBuilder, ctx.Done())
  if err != nil { klog.Fatalf("error building controller context: %v", err) }
  controllerInitializers := initializersFunc()
  if err := StartControllers(ctx, controllerContext, controllerInitializers, unsecuredMux, healthzHandler); err != nil {
      klog.Fatalf("error starting controllers: %v", err)
  }
  controllerContext.KarmadaDynamicInformerFactory.Start(stopCh)
  ... (seven more)
  close(controllerContext.InformersStarted)
  <-ctx.Done()
  \<close>
\<close>

definition run ::
  "Environment \<Rightarrow> CompletedConfig \<Rightarrow> KarmadaControllerClientBuilder
     \<Rightarrow> FireflyControllerClientBuilder \<Rightarrow> PathRecorderMux option \<Rightarrow> bool
     \<Rightarrow> ControllerInitializersFunc \<Rightarrow> chans \<Rightarrow> Status \<times> Call list \<times> chans" where
  "run env c karmadaClientBuilder fireflyKubeClientBuilder unsecuredMux ctxDone
       initializersFunc cs =
     (case CreateControllerContext env c karmadaClientBuilder fireflyKubeClientBuilder cs of
        None \<Rightarrow> (Exited, [], cs)
      | Some (controllerContext, Some err, cs1) \<Rightarrow> (Exited, [], cs1)
      | Some (controllerContext, None, cs1) \<Rightarrow>
          (let controllerInitializers = initializersFunc in
           case StartControllers env controllerContext (rangeOrder env controllerInitializers)
                  unsecuredMux of
             (Some err, calls) \<Rightarrow> (Exited, calls, cs1)
           | (None, calls) \<Rightarrow>
               (case startInformerFactories (informerFactories controllerContext) of
                  (False, starts) \<Rightarrow> (Panicked, calls @ starts, cs1)
                | (True, starts) \<Rightarrow>
                    (case close_chan (InformersStarted controllerContext) cs1 of
                       None \<Rightarrow> (Panicked, calls @ starts, cs1)
                     | Some (informersStarted, cs2) \<Rightarrow>
                         (let closed = calls @ starts @ [Close informersStarted]
                          in if ctxDone then (Returned None, closed @ [Receive CtxDone], cs2)
                             else (Blocked, closed, cs2))))))"

subsection \<open>Run\<close>

text \<open>
  \<open>createClientBuilders\<close> builds the two client builders from the two kubeconfigs.
\<close>

definition createClientBuilders ::
  "Environment \<Rightarrow> CompletedConfig
     \<Rightarrow> KarmadaControllerClientBuilder \<times> FireflyControllerClientBuilder" where
  "createClientBuilders env c =
     (NewSimpleKarmadaControllerClientBuilder env (KarmadaKubeconfig c),
      NewSimpleFireflyControllerClientBuilder env (FireflyKubeconfig c))"

text \<open>
  The initializers that the \<^verbatim>\<open>OnStartedLeading\<close> callback of a lock hands to \<open>run\<close>, and
  the callback itself: for the main lock all initializers, or with leader migration the
  non-migrated ones; for the migration lock the migrated ones.
\<close>

definition initializersOf ::
  "Environment \<Rightarrow> LeaderMigrator option \<Rightarrow> Initializers \<Rightarrow> ControllerInitializersFunc" where
  "initializersOf env leaderMigrator initializers =
     (case (initializers, leaderMigrator) of
        (FilteredInitializers expected, Some migrator) \<Rightarrow>
          createInitializersFunc env (FilterFunc migrator) expected
      | _ \<Rightarrow> NewControllerInitializers env)"

definition OnStartedLeading ::
  "Environment \<Rightarrow> CompletedConfig \<Rightarrow> PathRecorderMux option \<Rightarrow> LeaderMigrator option
     \<Rightarrow> Initializers \<Rightarrow> bool \<Rightarrow> chans \<Rightarrow> Status \<times> Call list \<times> chans" where
  "OnStartedLeading env c unsecuredMux leaderMigrator initializers ctxDone cs =
     (case createClientBuilders env c of
        (karmadaClientBuilder, fireflyKubeClientBuilder) \<Rightarrow>
          run env c karmadaClientBuilder fireflyKubeClientBuilder unsecuredMux ctxDone
            (initializersOf env leaderMigrator initializers) cs)"

text \<open>
  \<open>Run\<close>, as the calls of its own goroutine. \<open>stopCh\<close> says whether the stop channel is
  ever closed (\<^verbatim>\<open>wait.NeverStop\<close>, which the command hands to \<open>Run\<close>, never is). What the
  goroutines started by the two \<^verbatim>\<open>go leaderElectAndRun(...)\<close> statements do, among it the
  end of the process when a lock cannot be created or leadership is lost, is not part
  of the result.

  \<open>RunLeaderElection\<close> is \<open>Run\<close> from \<^verbatim>\<open>id, err := os.Hostname()\<close> on: the lock identity
  (\<^verbatim>\<open>id\<close> in the source), the leader migrator, the start of the main lock, with leader migration the receive
  from \<^verbatim>\<open>leaderMigrator.MigrationReady\<close> and then the start of the migration lock, and
  the receive from the stop channel.
\<close>

definition RunLeaderElection ::
  "Environment \<Rightarrow> CompletedConfig \<Rightarrow> bool \<Rightarrow> Status \<times> Call list" where
  "RunLeaderElection env c stopCh =
     (let generic = Generic (CompletedConfig.ComponentConfig c) in
      case Hostname env of
        (hostname, Some err) \<Rightarrow> (Returned (Some err), [])
      | (hostname, None) \<Rightarrow>
          (let lockIdentity = hostname @ ''_'' @ NewUUID env;
               leaderMigrator =
                 (if leadermigrationEnabled env generic
                  then Some (NewLeaderMigrator env (LeaderMigration generic)
                               ''firefly-controller-manager'')
                  else None);
               mainLock =
                 [GoLeaderElectAndRun MainLock lockIdentity
                    (LeaderElectionConfiguration.ResourceLock (LeaderElection generic))
                    (ResourceName (LeaderElection generic))
                    (if leaderMigrator \<noteq> None then FilteredInitializers ControllerNonMigrated
                     else AllInitializers)]
           in case leaderMigrator of
                None \<Rightarrow>
                  if stopCh then (Returned None, mainLock @ [Receive StopCh])
                  else (Blocked, mainLock)
              | Some migrator \<Rightarrow>
                  if \<not> MigrationReady migrator then (Blocked, mainLock)
                  else
                    (let migrationLock =
                       [Receive MigrationReadyCh,
                        GoLeaderElectAndRun MigrationLock lockIdentity
                          (ResourceLock (LeaderMigration generic))
                          (LeaderName (LeaderMigration generic))
                          (FilteredInitializers ControllerMigrated)]
                     in if stopCh
                        then (Returned None, mainLock @ migrationLock @ [Receive StopCh])
                        else (Blocked, mainLock @ migrationLock))))"

text \<open>
  \<open>RunServing\<close> is \<open>Run\<close> from \<^verbatim>\<open>createClientBuilders(c)\<close> on, given the unsecured mux:
  without leader election it calls \<open>run\<close> itself, with all initializers and a context
  that is done when the stop channel is closed, and returns \<^verbatim>\<open>nil\<close> when \<open>run\<close> returns.
\<close>

definition RunServing ::
  "Environment \<Rightarrow> CompletedConfig \<Rightarrow> bool \<Rightarrow> PathRecorderMux option \<Rightarrow> chans
     \<Rightarrow> Status \<times> Call list \<times> chans" where
  "RunServing env c stopCh unsecuredMux cs =
     (case createClientBuilders env c of
        (karmadaClientBuilder, fireflyKubeClientBuilder) \<Rightarrow>
          if \<not> LeaderElect (LeaderElection (Generic (CompletedConfig.ComponentConfig c))) then
            run env c karmadaClientBuilder fireflyKubeClientBuilder unsecuredMux stopCh
              (NewControllerInitializers env) cs
          else
            (case RunLeaderElection env c stopCh of (status, calls) \<Rightarrow> (status, calls, cs)))"

definition Run ::
  "Environment \<Rightarrow> CompletedConfig \<Rightarrow> bool \<Rightarrow> chans \<Rightarrow> Status \<times> Call list \<times> chans" where
  "Run env c stopCh cs =
     (let checks =
        (if LeaderElect (LeaderElection (Generic (CompletedConfig.ComponentConfig c)))
         then [NewLeaderHealthzAdaptor (20 * 1000000000)] else []);
          healthzHandler = [NewMutableHealthzHandler checks]
      in case SecureServing c of
           None \<Rightarrow>
             (case RunServing env c stopCh None cs of
                (status, calls, cs') \<Rightarrow> (status, healthzHandler @ calls, cs'))
         | Some secureServing \<Rightarrow>
             (case Serve secureServing of
                Some err \<Rightarrow> (Returned (Some err), healthzHandler @ [ServeSecurely], cs)
              | None \<Rightarrow>
                  (case RunServing env c stopCh (Some NewBaseHandler) cs of
                     (status, calls, cs') \<Rightarrow>
                       (status, healthzHandler @ [ServeSecurely] @ calls, cs'))))"

subsection \<open>Kinds of calls\<close>

text \<open>
  Whether a call starts an informer factory, closes a channel, starts the election of
  the migration lock, or is a completed receive from \<^verbatim>\<open>MigrationReady\<close>.
\<close>

fun isStart :: "Call \<Rightarrow> bool" where
  "isStart (Start factory) = True"
| "isStart c = False"

fun isClose :: "Call \<Rightarrow> bool" where
  "isClose (Close c) = True"
| "isClose c = False"

fun isMigrationLockElection :: "Call \<Rightarrow> bool" where
  "isMigrationLockElection
     (GoLeaderElectAndRun MigrationLock lockIdentity resourceLock leaseName initializers) = True"
| "isMigrationLockElection c = False"

fun isMigrationReady :: "Call \<Rightarrow> bool" where
  "isMigrationReady (Receive MigrationReadyCh) = True"
| "isMigrationReady c = False"

text \<open>
  The calls made before the first call of a kind (all calls when there is none), and the
  calls from the first call of that kind on.
\<close>

definition beforeFirst :: "(Call \<Rightarrow> bool) \<Rightarrow> Call list \<Rightarrow> Call list" where
  "beforeFirst kind calls = takeWhile (\<lambda>call. \<not> kind call) calls"

definition fromFirst :: "(Call \<Rightarrow> bool) \<Rightarrow> Call list \<Rightarrow> Call list" where
  "fromFirst kind calls = dropWhile (\<lambda>call. \<not> kind call) calls"

text \<open>Whether a call is one that \<open>StartControllers\<close> makes.\<close>

fun madeByStartControllers :: "Call \<Rightarrow> bool" where
  "madeByStartControllers Sleep = True"
| "madeByStartControllers (Invoke name) = True"
| "madeByStartControllers (UnlistedHandle path handler) = True"
| "madeByStartControllers (UnlistedHandlePrefix path handler) = True"
| "madeByStartControllers (AddHealthChecker checks) = True"
| "madeByStartControllers c = False"

section \<open>The resync period\<close>

subsection \<open>Arithmetic of float64\<close>

text \<open>
  A finite \<^verbatim>\<open>float64\<close> is a whole number of at most 53 bits, with its sign, times a power of
  two. A value of the model is such a pair of a mantissa and an exponent, of any size;
  \<open>isFloat64\<close> says that the mantissa has at most 53 bits. The operations of Go compute
  the exact result and round it to the nearest \<^verbatim>\<open>float64\<close>, to the one with the even
  mantissa when two are as near: \<open>round53\<close> keeps a mantissa of at most 53 bits and
  shortens a longer one to 53 bits. The range of the exponent of a \<^verbatim>\<open>float64\<close> is not
  modelled: the closure below adds one to a number between zero and one and multiplies
  the sum with a whole number below \<open>2 ^ 63\<close> in size, so no result is too large for a
  \<^verbatim>\<open>float64\<close> and none but zero is below one in size.
\<close>

type_synonym float64 = "int \<times> int"

definition float64_value :: "float64 \<Rightarrow> real" where
  "float64_value x = real_of_int (fst x) * 2 powr real_of_int (snd x)"

definition isFloat64 :: "float64 \<Rightarrow> bool" where
  "isFloat64 x = (\<bar>fst x\<bar> < 2 ^ 53)"

text \<open>
  \<open>roundShift m s\<close> is \<open>m / 2 ^ s\<close> rounded to the nearest whole number, to the even one
  when two are as near.
\<close>

definition roundShift :: "int \<Rightarrow> nat \<Rightarrow> int" where
  "roundShift m s =
     (let q = m div 2 ^ s; r = m mod 2 ^ s; half = 2 ^ (s - 1)
      in if r < half \<or> (r = half \<and> even q) then q else q + 1)"

definition round53 :: "float64 \<Rightarrow> float64" where
  "round53 x =
     (let n = bitlen \<bar>fst x\<bar>
      in if n \<le> 53 then x
         else (roundShift (fst x) (nat (n - 53)), snd x + (n - 53)))"








subsection \<open>ResyncPeriod\<close>


section \<open>A concrete environment\<close>

text \<open>
  An environment, client builders and a configuration at which the operations are
  evaluated below. Both API servers are healthy, the karmada cluster serves pods and
  deployments and the host cluster serves nodes, and \<^verbatim>\<open>IsControllerEnabled\<close> and
  \<^verbatim>\<open>ParseGroupVersion\<close> are the library's own.
\<close>

definition sampleKarmadaDiscovery :: DiscoveryInterface where
  "sampleKarmadaDiscovery =
     \<lparr>ServerGroupsAndResources =
        ([\<lparr>GroupVersion = ''v1'', APIResources = [\<lparr>Name = ''pods''\<rparr>]\<rparr>,
          \<lparr>GroupVersion = ''apps/v1'', APIResources = [\<lparr>Name = ''deployments''\<rparr>]\<rparr>], None)\<rparr>"

definition sampleHostDiscovery :: DiscoveryInterface where
  "sampleHostDiscovery =
     \<lparr>ServerGroupsAndResources =
        ([\<lparr>GroupVersion = ''v1'', APIResources = [\<lparr>Name = ''nodes''\<rparr>]\<rparr>], None)\<rparr>"

definition sampleKarmadaBuilder :: KarmadaControllerClientBuilder where
  "sampleKarmadaBuilder =
     \<lparr>KarmadaControllerClientBuilder.ClientOrDie =
        (\<lambda>name. Some \<lparr>UserAgent = name, Discovery = sampleKarmadaDiscovery\<rparr>),
      KarmadaControllerClientBuilder.DynamicClientOrDie = (\<lambda>name. Some (DynamicClient name)),
      KarmadaFireflyClientOrDie = (\<lambda>name. Some (KarmadaFireflyClient name)),
      KarmadaControllerClientBuilder.ConfigOrDie = (\<lambda>name. Some (RestConfig name)),
      DiscoveryClientOrDie = (\<lambda>name. Some sampleKarmadaDiscovery)\<rparr>"

definition sampleFireflyBuilder :: FireflyControllerClientBuilder where
  "sampleFireflyBuilder =
     \<lparr>ClientOrDie = (\<lambda>name. Some \<lparr>UserAgent = name, Discovery = sampleHostDiscovery\<rparr>),
      DynamicClientOrDie = (\<lambda>name. Some (DynamicClient name)),
      ConfigOrDie = (\<lambda>name. Some (RestConfig name))\<rparr>"

text \<open>
  Three initializers: one starts a controller that is health-checkable and debuggable,
  one declines to start, and one fails.
\<close>

definition startsWithProbe :: InitFunc where
  "startsWithProbe controllerCtx =
     (Some \<lparr>asDebuggable = Some \<lparr>DebuggingHandler = Some (Handler ''debug'')\<rparr>,
            asHealthCheckable = Some \<lparr>HealthChecker = Some (UnnamedHealthChecker ''probe'')\<rparr>\<rparr>,
      True, None)"

definition declines :: InitFunc where
  "declines controllerCtx = (None, False, None)"

definition fails :: InitFunc where
  "fails controllerCtx = (None, False, Some (External ''cannot start''))"

definition sampleEnvironment :: Environment where
  "sampleEnvironment =
     \<lparr>genericIsControllerEnabled = generic_IsControllerEnabled,
      ParseGroupVersion = schema_ParseGroupVersion,
      WaitForAPIServer = (\<lambda>client. None),
      karmadaNewForConfigOrDie = (\<lambda>config. Some (KarmadaClient ''karmada'')),
      fireflyNewForConfigOrDie = (\<lambda>config. Some (FireflyClient ''firefly'')),
      metadataNewForConfigOrDie = (\<lambda>config. Some (MetadataClient ''metadata'')),
      resyncPeriods = (\<lambda>n. 43200000000000 + int n),
      NewSimpleKarmadaControllerClientBuilder = (\<lambda>config. sampleKarmadaBuilder),
      NewSimpleFireflyControllerClientBuilder = (\<lambda>config. sampleFireflyBuilder),
      startEstimatorController = startsWithProbe,
      startNodeController = declines,
      startFooController = startsWithProbe,
      startKubeanController = declines,
      rangeOrder = (\<lambda>initializers. initializers),
      Hostname = (''host-1'', None),
      NewUUID = ''0f2c'',
      leadermigrationEnabled = (\<lambda>generic. LeaderElect (LeaderElection generic)),
      NewLeaderMigrator =
        (\<lambda>config component. \<lparr>MigrationReady = False,
                               FilterFunc = (\<lambda>name. ControllerNonMigrated)\<rparr>)\<rparr>"

text \<open>
  A configuration without leader election and without secure serving, in which every
  controller is on by default and the controller \<^verbatim>\<open>foo\<close> is switched off.
\<close>

definition sampleConfig :: CompletedConfig where
  "sampleConfig =
     \<lparr>CompletedConfig.ComponentConfig =
        \<lparr>Generic =
           \<lparr>MinResyncPeriod = 43200000000000,
            ControllerStartInterval = 0,
            Controllers = [''*'', ''-foo''],
            LeaderElection =
              \<lparr>LeaderElect = False, LeaderElectionConfiguration.ResourceLock = ''leases'',
               ResourceName = ''firefly-karmada-manager''\<rparr>,
            LeaderMigration =
              \<lparr>LeaderName = ''firefly-karmada-manager-migration'', ResourceLock = ''leases''\<rparr>\<rparr>\<rparr>,
      SecureServing = None,
      KarmadaKubeconfig = RestConfig ''karmada'',
      FireflyKubeconfig = RestConfig ''firefly'',
      CompletedConfig.EstimatorNamespace = ''firefly-system'',
      CompletedConfig.KarmadaName = ''demo''\<rparr>"

definition sampleContext :: ControllerContext where
  "sampleContext =
     ControllerContext_zero\<lparr>ComponentConfig := CompletedConfig.ComponentConfig sampleConfig\<rparr>"

text \<open>
  Client builders of a cluster whose discovery is broken: every client they build has a
  discovery client that returns no resource list and an error.
\<close>

definition brokenDiscovery :: DiscoveryInterface where
  "brokenDiscovery = \<lparr>ServerGroupsAndResources = ([], Some (External ''connection refused''))\<rparr>"

definition brokenKarmadaBuilder :: KarmadaControllerClientBuilder where
  "brokenKarmadaBuilder =
     sampleKarmadaBuilder
       \<lparr>KarmadaControllerClientBuilder.ClientOrDie :=
          (\<lambda>name. Some \<lparr>UserAgent = name, Discovery = brokenDiscovery\<rparr>)\<rparr>"

definition brokenFireflyBuilder :: FireflyControllerClientBuilder where
  "brokenFireflyBuilder =
     sampleFireflyBuilder
       \<lparr>ClientOrDie := (\<lambda>name. Some \<lparr>UserAgent = name, Discovery = brokenDiscovery\<rparr>)\<rparr>"

text \<open>
  The configuration with leader election switched on, and an environment whose leader
  migrator's \<^verbatim>\<open>MigrationReady\<close> fires and whose filter function migrates the controller
  \<^verbatim>\<open>foo\<close>. In \<open>sampleEnvironment\<close> leader migration is enabled with leader election, and
  \<^verbatim>\<open>MigrationReady\<close> never fires.
\<close>

definition electingConfig :: CompletedConfig where
  "electingConfig =
     sampleConfig
       \<lparr>CompletedConfig.ComponentConfig :=
          \<lparr>Generic =
             (Generic (CompletedConfig.ComponentConfig sampleConfig))
               \<lparr>LeaderElection :=
                  \<lparr>LeaderElect = True, LeaderElectionConfiguration.ResourceLock = ''leases'',
                   ResourceName = ''firefly-karmada-manager''\<rparr>\<rparr>\<rparr>\<rparr>"

definition migratingEnvironment :: Environment where
  "migratingEnvironment =
     sampleEnvironment
       \<lparr>NewLeaderMigrator :=
          (\<lambda>config component.
             \<lparr>MigrationReady = True,
              FilterFunc = (\<lambda>name. if name = ''foo'' then ControllerMigrated
                                    else ControllerNonMigrated)\<rparr>)\<rparr>"


section \<open>Properties of the argument validator\<close>

lemma ArgsRange_result:
  "ArgsRange commandPath args rest =
     (if list_ex (\<lambda>arg. arg \<noteq> []) rest then Some (DoesNotTakeArguments commandPath args)
      else None)"
  by (induction rest) auto

text \<open>
  C9, as the code has it. \<open>Args\<close> returns an error exactly when some argument is a
  non-empty string, and the error then names the command path and the whole argument
  list; it returns \<^verbatim>\<open>nil\<close> when the list is empty and also when every argument is
  the empty string.
\<close>

theorem Args_rejects_nonempty_argument:
  "Args commandPath args =
     (if list_ex (\<lambda>arg. arg \<noteq> []) args then Some (DoesNotTakeArguments commandPath args)
      else None)"
  unfolding Args_def by (rule ArgsRange_result)

theorem Args_rejects_nonempty_argument_witness:
  "Args ''firefly-karmada-manager'' ['''', ''extra''] =
     Some (DoesNotTakeArguments ''firefly-karmada-manager'' ['''', ''extra''])
   \<and> Args ''firefly-karmada-manager'' [] = None
   \<and> Args ''firefly-karmada-manager'' ['''', ''''] = None"
  using Args_rejects_nonempty_argument [of "''firefly-karmada-manager''" "['''', ''extra'']"]
    Args_rejects_nonempty_argument [of "''firefly-karmada-manager''" "[]"]
    Args_rejects_nonempty_argument [of "''firefly-karmada-manager''" "['''', '''']"]
  by simp

text \<open>
  C9 as the specification states it (every non-empty argument list is rejected) fails:
  the list holding one empty string is not empty, and \<open>Args\<close> accepts it.
\<close>

theorem Args_accepts_empty_string_argument:
  "['''' :: string] \<noteq> [] \<and> Args ''firefly-karmada-manager'' [''''] = None"
  by (simp add: Args_def)

section \<open>Properties of the internal storage switch\<close>

text \<open>
  C10. Postgres takes precedence: with a Postgres section that has a Local section the
  result is that of \<open>EnsurePostgres\<close>, whatever the MySQL section is; otherwise, with a
  MySQL section that has a Local section, it is that of \<open>EnsureMySQL\<close>; in every other
  case (no section, or a section without Local) it is the unknown storage type error.
\<close>

theorem EnsureInternalStorage_dispatch:
  fixes ctrl :: "('p, 'm) ClusterpediaController" and clusterpedia :: "('p, 'm) Clusterpedia"
  defines "storage \<equiv> Storage (Spec clusterpedia)"
  defines "postgresLocal \<equiv> (\<exists>pg l. Postgres storage = Some pg \<and> PostgresLocal pg = Some l)"
  defines "mysqlLocal \<equiv> (\<exists>my l. MySQL storage = Some my \<and> MySQLLocal my = Some l)"
  shows "(postgresLocal \<longrightarrow>
            EnsureInternalStorage ctrl clusterpedia = EnsurePostgres ctrl clusterpedia)
       \<and> (\<not> postgresLocal \<and> mysqlLocal \<longrightarrow>
            EnsureInternalStorage ctrl clusterpedia = EnsureMySQL ctrl clusterpedia)
       \<and> (\<not> postgresLocal \<and> \<not> mysqlLocal \<longrightarrow>
            EnsureInternalStorage ctrl clusterpedia = Some UnknownStorageType)"
  unfolding postgresLocal_def mysqlLocal_def storage_def EnsureInternalStorage_def Let_def
  by (auto split: option.splits)

theorem EnsureInternalStorage_dispatch_witness:
  "EnsureInternalStorage
     \<lparr>EnsurePostgres = (\<lambda>c. Some (External ''postgres'')), EnsureMySQL = (\<lambda>c. None)\<rparr>
     \<lparr>Spec = \<lparr>Storage = \<lparr>Postgres = Some \<lparr>PostgresLocal = Some (1::nat)\<rparr>,
                            MySQL = Some \<lparr>MySQLLocal = Some (2::nat)\<rparr>\<rparr>\<rparr>\<rparr>
     = Some (External ''postgres'')
   \<and> EnsureInternalStorage
     \<lparr>EnsurePostgres = (\<lambda>c. Some (External ''postgres'')), EnsureMySQL = (\<lambda>c. None)\<rparr>
     \<lparr>Spec = \<lparr>Storage = \<lparr>Postgres = Some \<lparr>PostgresLocal = (None :: nat option)\<rparr>,
                            MySQL = Some \<lparr>MySQLLocal = Some (2::nat)\<rparr>\<rparr>\<rparr>\<rparr>
     = None
   \<and> EnsureInternalStorage
     \<lparr>EnsurePostgres = (\<lambda>c. Some (External ''postgres'')), EnsureMySQL = (\<lambda>c. None)\<rparr>
     \<lparr>Spec = \<lparr>Storage = \<lparr>Postgres = Some \<lparr>PostgresLocal = (None :: nat option)\<rparr>,
                            MySQL = (None :: nat MySQLStorage option)\<rparr>\<rparr>\<rparr>
     = Some UnknownStorageType"
  using
    EnsureInternalStorage_dispatch [of
      "\<lparr>Spec = \<lparr>Storage = \<lparr>Postgres = Some \<lparr>PostgresLocal = Some (1::nat)\<rparr>,
                             MySQL = Some \<lparr>MySQLLocal = Some (2::nat)\<rparr>\<rparr>\<rparr>\<rparr>"
      "\<lparr>EnsurePostgres = (\<lambda>c. Some (External ''postgres'')), EnsureMySQL = (\<lambda>c. None)\<rparr>"]
    EnsureInternalStorage_dispatch [of
      "\<lparr>Spec = \<lparr>Storage = \<lparr>Postgres = Some \<lparr>PostgresLocal = (None :: nat option)\<rparr>,
                             MySQL = Some \<lparr>MySQLLocal = Some (2::nat)\<rparr>\<rparr>\<rparr>\<rparr>"
      "\<lparr>EnsurePostgres = (\<lambda>c. Some (External ''postgres'')), EnsureMySQL = (\<lambda>c. None)\<rparr>"]
    EnsureInternalStorage_dispatch [of
      "\<lparr>Spec = \<lparr>Storage = \<lparr>Postgres = Some \<lparr>PostgresLocal = (None :: nat option)\<rparr>,
                             MySQL = (None :: nat MySQLStorage option)\<rparr>\<rparr>\<rparr>"
      "\<lparr>EnsurePostgres = (\<lambda>c. Some (External ''postgres'')), EnsureMySQL = (\<lambda>c. None)\<rparr>"]
  by simp

section \<open>Properties of resource discovery\<close>

lemma APIResourcesRange_lookup:
  "APIResourcesRange version rs m k =
     (if k \<in> (\<lambda>r. WithResource version (Name r)) ` set rs then Some True else m k)"
  by (induction rs arbitrary: m) auto

lemma resourceMapRange_all_parse:
  "\<forall>l \<in> set ls. \<not> isl (parse (GroupVersion l)) \<Longrightarrow>
   \<exists>m'. resourceMapRange parse ls m = Inr m' \<and>
     (\<forall>k. m' k = (if k \<in> returnedResources parse ls then Some True else m k))"
proof (induction ls arbitrary: m)
  case Nil
  then show ?case by (simp add: returnedResources_def)
next
  case (Cons l ls)
  from Cons.prems obtain v where v: "parse (GroupVersion l) = Inr v"
    by (cases "parse (GroupVersion l)") auto
  from Cons.prems have "\<forall>l \<in> set ls. \<not> isl (parse (GroupVersion l))" by simp
  from Cons.IH [OF this, of "APIResourcesRange v (APIResources l) m"]
  obtain m' where m': "resourceMapRange parse ls (APIResourcesRange v (APIResources l) m) = Inr m'"
    "\<forall>k. m' k = (if k \<in> returnedResources parse ls then Some True
                  else APIResourcesRange v (APIResources l) m k)"
    by blast
  have "returnedResources parse (l # ls) =
          (\<lambda>r. WithResource v (Name r)) ` set (APIResources l) \<union> returnedResources parse ls"
    by (simp add: returnedResources_def v)
  with m' v show ?case
    by (auto simp: APIResourcesRange_lookup)
qed

lemma resourceMapRange_parse_error:
  "\<exists>l \<in> set ls. isl (parse (GroupVersion l)) \<Longrightarrow>
   \<exists>before l after err. ls = before @ l # after \<and>
      (\<forall>b \<in> set before. \<not> isl (parse (GroupVersion b))) \<and>
      parse (GroupVersion l) = Inl err \<and> resourceMapRange parse ls m = Inl err"
proof (induction ls arbitrary: m)
  case Nil
  then show ?case by simp
next
  case (Cons l ls)
  show ?case
  proof (cases "parse (GroupVersion l)")
    case (Inl err)
    then have "l # ls = [] @ l # ls \<and> (\<forall>b \<in> set []. \<not> isl (parse (GroupVersion b))) \<and>
      parse (GroupVersion l) = Inl err \<and> resourceMapRange parse (l # ls) m = Inl err"
      by simp
    then show ?thesis by blast
  next
    case (Inr v)
    with Cons.prems have "\<exists>l \<in> set ls. isl (parse (GroupVersion l))" by auto
    from Cons.IH [OF this, of "APIResourcesRange v (APIResources l) m"]
    obtain before x after err where h: "ls = before @ x # after"
      "\<forall>b \<in> set before. \<not> isl (parse (GroupVersion b))"
      "parse (GroupVersion x) = Inl err"
      "resourceMapRange parse ls (APIResourcesRange v (APIResources l) m) = Inl err"
      by blast
    from h Inr have "l # ls = (l # before) @ x # after \<and>
      (\<forall>b \<in> set (l # before). \<not> isl (parse (GroupVersion b))) \<and>
      parse (GroupVersion x) = Inl err \<and> resourceMapRange parse (l # ls) m = Inl err"
      by simp
    then show ?thesis by blast
  qed
qed

text \<open>
  C2, as the code has it. With an empty resource map the call fails with the
  no-supported-resources error. With a non-empty resource map whose group and version
  strings all parse, the call succeeds whatever error the discovery call reported, and
  the map returned holds exactly the returned group-version-resources, each mapped to
  true. With a non-empty resource map in which some group and version string does not
  parse, the call fails with the parse error of the first such list. So the call fails
  exactly when the resource map is empty or some group and version string does not
  parse.
\<close>

theorem GetAvailableResources_result:
  assumes "ServerGroupsAndResources client = (resourceMap, err)"
  shows "(resourceMap = [] \<longrightarrow> GetAvailableResources parse client = Inl NoSupportedResources)
    \<and> (resourceMap \<noteq> [] \<and> (\<forall>l \<in> set resourceMap. \<not> isl (parse (GroupVersion l))) \<longrightarrow>
         (\<exists>allResources. GetAvailableResources parse client = Inr allResources
            \<and> dom allResources = returnedResources parse resourceMap
            \<and> (\<forall>k \<in> dom allResources. allResources k = Some True)))
    \<and> (resourceMap \<noteq> [] \<and> (\<exists>l \<in> set resourceMap. isl (parse (GroupVersion l))) \<longrightarrow>
         (\<exists>before l after e. resourceMap = before @ l # after
            \<and> (\<forall>b \<in> set before. \<not> isl (parse (GroupVersion b)))
            \<and> parse (GroupVersion l) = Inl e
            \<and> GetAvailableResources parse client = Inl e))
    \<and> (isl (GetAvailableResources parse client) \<longleftrightarrow>
         resourceMap = [] \<or> (\<exists>l \<in> set resourceMap. isl (parse (GroupVersion l))))"
proof -
  have a: "resourceMap = [] \<Longrightarrow> GetAvailableResources parse client = Inl NoSupportedResources"
    using assms by (simp add: GetAvailableResources_def)
  have run: "resourceMap \<noteq> [] \<Longrightarrow>
    GetAvailableResources parse client = resourceMapRange parse resourceMap Map.empty"
    using assms by (simp add: GetAvailableResources_def)
  have b: "(\<exists>allResources. GetAvailableResources parse client = Inr allResources
            \<and> dom allResources = returnedResources parse resourceMap
            \<and> (\<forall>k \<in> dom allResources. allResources k = Some True))"
    if ne: "resourceMap \<noteq> []" and ok: "\<forall>l \<in> set resourceMap. \<not> isl (parse (GroupVersion l))"
  proof -
    from resourceMapRange_all_parse [OF ok, of Map.empty]
    obtain m' where m': "resourceMapRange parse resourceMap Map.empty = Inr m'"
      "\<forall>k. m' k = (if k \<in> returnedResources parse resourceMap then Some True else None)"
      by auto
    have "dom m' = returnedResources parse resourceMap"
      using m'(2) by (auto simp: dom_def)
    moreover have "\<forall>k \<in> dom m'. m' k = Some True"
      using m'(2) by (auto simp: dom_def)
    ultimately show ?thesis using run [OF ne] m'(1) by simp
  qed
  have c: "(\<exists>before l after e. resourceMap = before @ l # after
            \<and> (\<forall>b \<in> set before. \<not> isl (parse (GroupVersion b)))
            \<and> parse (GroupVersion l) = Inl e
            \<and> GetAvailableResources parse client = Inl e)"
    if ne: "resourceMap \<noteq> []" and bad: "\<exists>l \<in> set resourceMap. isl (parse (GroupVersion l))"
    using resourceMapRange_parse_error [OF bad, of Map.empty] run [OF ne] by simp
  have d: "isl (GetAvailableResources parse client) \<longleftrightarrow>
         resourceMap = [] \<or> (\<exists>l \<in> set resourceMap. isl (parse (GroupVersion l)))"
  proof (cases "resourceMap = []")
    case True
    then show ?thesis using a by simp
  next
    case False
    show ?thesis
    proof (cases "\<exists>l \<in> set resourceMap. isl (parse (GroupVersion l))")
      case True
      with c [OF False] show ?thesis by auto
    next
      case no: False
      with b [OF False] False show ?thesis by auto
    qed
  qed
  from a b c d show ?thesis by blast
qed

theorem GetAvailableResources_result_witness:
  "GetAvailableResources schema_ParseGroupVersion
     \<lparr>ServerGroupsAndResources = ([], Some (External ''the server is currently unable to handle the request''))\<rparr>
     = Inl NoSupportedResources
   \<and> (\<exists>allResources.
        GetAvailableResources schema_ParseGroupVersion
          \<lparr>ServerGroupsAndResources =
             ([\<lparr>GroupVersion = ''v1'', APIResources = [\<lparr>Name = ''pods''\<rparr>, \<lparr>Name = ''nodes''\<rparr>]\<rparr>,
               \<lparr>GroupVersion = ''apps/v1'', APIResources = [\<lparr>Name = ''deployments''\<rparr>]\<rparr>],
              Some (External ''unable to retrieve the complete list of server APIs''))\<rparr>
          = Inr allResources
        \<and> dom allResources =
            {GroupVersionResource [] ''v1'' ''pods'', GroupVersionResource [] ''v1'' ''nodes'',
             GroupVersionResource ''apps'' ''v1'' ''deployments''}
        \<and> allResources (GroupVersionResource ''apps'' ''v1'' ''deployments'') = Some True)
   \<and> GetAvailableResources schema_ParseGroupVersion
        \<lparr>ServerGroupsAndResources =
           ([\<lparr>GroupVersion = ''v1'', APIResources = [\<lparr>Name = ''pods''\<rparr>]\<rparr>,
             \<lparr>GroupVersion = ''a/b/c'', APIResources = [\<lparr>Name = ''widgets''\<rparr>]\<rparr>], None)\<rparr>
        = Inl (External ''unexpected GroupVersion string: a/b/c'')"
proof -
  let ?p = schema_ParseGroupVersion
  let ?down = "Some (External ''the server is currently unable to handle the request'')"
  let ?none = "\<lparr>ServerGroupsAndResources = ([], ?down)\<rparr>"
  let ?lists = "[\<lparr>GroupVersion = ''v1'', APIResources = [\<lparr>Name = ''pods''\<rparr>, \<lparr>Name = ''nodes''\<rparr>]\<rparr>,
               \<lparr>GroupVersion = ''apps/v1'', APIResources = [\<lparr>Name = ''deployments''\<rparr>]\<rparr>]"
  let ?err = "Some (External ''unable to retrieve the complete list of server APIs'')"
  let ?partial = "\<lparr>ServerGroupsAndResources = (?lists, ?err)\<rparr>"
  let ?badlists = "[\<lparr>GroupVersion = ''v1'', APIResources = [\<lparr>Name = ''pods''\<rparr>]\<rparr>,
             \<lparr>GroupVersion = ''a/b/c'', APIResources = [\<lparr>Name = ''widgets''\<rparr>]\<rparr>]"
  let ?bad = "\<lparr>ServerGroupsAndResources = (?badlists, None)\<rparr>"
  have p1: "?p ''v1'' = Inr \<lparr>Group = [], Version = ''v1''\<rparr>"
    and p2: "?p ''apps/v1'' = Inr \<lparr>Group = ''apps'', Version = ''v1''\<rparr>"
    and p3: "?p ''a/b/c'' = Inl (External ''unexpected GroupVersion string: a/b/c'')"
    by (simp_all add: schema_ParseGroupVersion_def)
  have r1: "ServerGroupsAndResources ?none = ([], ?down)"
    and r2: "ServerGroupsAndResources ?partial = (?lists, ?err)"
    and r3: "ServerGroupsAndResources ?bad = (?badlists, None)"
    by simp_all
  have one: "GetAvailableResources ?p ?none = Inl NoSupportedResources"
    using GetAvailableResources_result [OF r1, of ?p, THEN conjunct1] by simp
  have ok: "?lists \<noteq> [] \<and> (\<forall>l \<in> set ?lists. \<not> isl (?p (GroupVersion l)))"
    by (simp add: p1 p2)
  from GetAvailableResources_result [OF r2, of ?p, THEN conjunct2, THEN conjunct1, rule_format, OF ok]
  obtain allResources where two: "GetAvailableResources ?p ?partial = Inr allResources"
    "dom allResources = returnedResources ?p ?lists"
    "\<forall>k \<in> dom allResources. allResources k = Some True"
    by blast
  have set: "returnedResources ?p ?lists =
     {GroupVersionResource [] ''v1'' ''pods'', GroupVersionResource [] ''v1'' ''nodes'',
      GroupVersionResource ''apps'' ''v1'' ''deployments''}"
    by (simp add: returnedResources_def p1 p2 WithResource_def insert_commute)
  have two': "\<exists>allResources. GetAvailableResources ?p ?partial = Inr allResources
        \<and> dom allResources =
            {GroupVersionResource [] ''v1'' ''pods'', GroupVersionResource [] ''v1'' ''nodes'',
             GroupVersionResource ''apps'' ''v1'' ''deployments''}
        \<and> allResources (GroupVersionResource ''apps'' ''v1'' ''deployments'') = Some True"
    by (rule exI [of _ allResources]) (simp add: two(1) two(2) two(3) set)
  have bad: "?badlists \<noteq> [] \<and> (\<exists>l \<in> set ?badlists. isl (?p (GroupVersion l)))"
    by (simp add: p3)
  from GetAvailableResources_result [OF r3, of ?p, THEN conjunct2, THEN conjunct2, THEN conjunct1,
      rule_format, OF bad]
  obtain before l after e where h: "?badlists = before @ l # after"
    "?p (GroupVersion l) = Inl e" "GetAvailableResources ?p ?bad = Inl e"
    by blast
  from h(1) have "l \<in> set ?badlists" by (metis in_set_conv_decomp)
  then have "l = \<lparr>GroupVersion = ''v1'', APIResources = [\<lparr>Name = ''pods''\<rparr>]\<rparr>
     \<or> l = \<lparr>GroupVersion = ''a/b/c'', APIResources = [\<lparr>Name = ''widgets''\<rparr>]\<rparr>"
    by simp
  with h(2) have "e = External ''unexpected GroupVersion string: a/b/c''"
    using p1 p3 by auto
  with h(3) have three: "GetAvailableResources ?p ?bad =
      Inl (External ''unexpected GroupVersion string: a/b/c'')" by simp
  show ?thesis by (rule conjI [OF one conjI [OF two' three]])
qed

text \<open>
  C2 as the specification states it (an error exactly when the resource map is empty)
  fails: here the resource map holds one resource list, whose group and version string
  has two slashes, and the call returns the parse error.
\<close>

theorem GetAvailableResources_error_on_nonempty_resource_map:
  "fst (ServerGroupsAndResources
         \<lparr>ServerGroupsAndResources =
            ([\<lparr>GroupVersion = ''a/b/c'', APIResources = [\<lparr>Name = ''widgets''\<rparr>]\<rparr>], None)\<rparr>) \<noteq> []
   \<and> GetAvailableResources schema_ParseGroupVersion
        \<lparr>ServerGroupsAndResources =
           ([\<lparr>GroupVersion = ''a/b/c'', APIResources = [\<lparr>Name = ''widgets''\<rparr>]\<rparr>], None)\<rparr>
        = Inl (External ''unexpected GroupVersion string: a/b/c'')"
  by (simp add: GetAvailableResources_def schema_ParseGroupVersion_def)

section \<open>Properties of StartControllers\<close>

lemma invoked_append: "invoked (xs @ ys) = invoked xs @ invoked ys"
  by (induction xs rule: invoked.induct) simp_all

lemma registered_append: "registered (xs @ ys) = registered xs @ registered ys"
  by (induction xs rule: registered.induct) simp_all

lemma invoked_mountDebugHandler: "invoked (mountDebugHandler name ctrl mux) = []"
  by (simp add: mountDebugHandler_def Let_def split: option.splits)

lemma registered_mountDebugHandler: "registered (mountDebugHandler name ctrl mux) = []"
  by (simp add: mountDebugHandler_def Let_def split: option.splits)

lemma no_AddHealthChecker_mountDebugHandler:
  "\<not> list_ex isAddHealthChecker (mountDebugHandler name ctrl mux)"
  by (simp add: mountDebugHandler_def Let_def split: option.splits)

lemma healthCheck_expected: "healthCheck name ctrl = expectedHealthCheck name ctrl"
  by (simp add: healthCheck_def expectedHealthCheck_def ownHealthChecker_def Let_def
      split: option.splits)

lemma initializerErrors_Cons:
  "initializerErrors env ctx ((name, initFn) # rest) =
     (if IsControllerEnabled env ctx name
      then (case snd (snd (initFn ctx)) of None \<Rightarrow> [] | Some e \<Rightarrow> [e]) else [])
     @ initializerErrors env ctx rest"
  by (simp add: initializerErrors_def enabledEntries_def List.map_filter_simps split: option.splits)

lemma StartControllersRange_no_error:
  "initializerErrors env ctx cs = [] \<Longrightarrow>
   \<exists>calls. StartControllersRange env ctx mux cs checks =
      (Inr (checks @ map (\<lambda>(name, initFn). expectedHealthCheck name (fst (initFn ctx)))
                         (startedEntries env ctx cs)), calls)
     \<and> invoked calls = map fst (enabledEntries env ctx cs)
     \<and> \<not> list_ex isAddHealthChecker calls"
proof (induction cs arbitrary: checks)
  case Nil
  then show ?case by (simp add: startedEntries_def enabledEntries_def)
next
  case (Cons entry cs)
  obtain name initFn where entry: "entry = (name, initFn)" by (cases entry)
  from Cons.prems have rest: "initializerErrors env ctx cs = []"
    by (simp add: entry initializerErrors_Cons)
  show ?case
  proof (cases "IsControllerEnabled env ctx name")
    case False
    with Cons.IH [OF rest, of checks] show ?thesis
      by (simp add: entry startedEntries_def enabledEntries_def)
  next
    case True
    obtain ctrl started err where r: "initFn ctx = (ctrl, started, err)"
      by (cases "initFn ctx")
    from Cons.prems True r have err: "err = None"
      by (simp add: entry initializerErrors_Cons split: option.splits)
    show ?thesis
    proof (cases started)
      case False
      from Cons.IH [OF rest, of checks] obtain calls where
        c: "StartControllersRange env ctx mux cs checks =
              (Inr (checks @ map (\<lambda>(name, initFn). expectedHealthCheck name (fst (initFn ctx)))
                         (startedEntries env ctx cs)), calls)"
        "invoked calls = map fst (enabledEntries env ctx cs)"
        "\<not> list_ex isAddHealthChecker calls" by blast
      with True r err False show ?thesis
        by (simp add: entry startedEntries_def enabledEntries_def)
    next
      case started: True
      from Cons.IH [OF rest, of "checks @ [healthCheck name ctrl]"] obtain calls where
        c: "StartControllersRange env ctx mux cs (checks @ [healthCheck name ctrl]) =
              (Inr ((checks @ [healthCheck name ctrl])
                   @ map (\<lambda>(name, initFn). expectedHealthCheck name (fst (initFn ctx)))
                         (startedEntries env ctx cs)), calls)"
        "invoked calls = map fst (enabledEntries env ctx cs)"
        "\<not> list_ex isAddHealthChecker calls" by blast
      with True r err started show ?thesis
        by (simp add: entry startedEntries_def enabledEntries_def healthCheck_expected
            invoked_append invoked_mountDebugHandler no_AddHealthChecker_mountDebugHandler)
    qed
  qed
qed

lemma StartControllersRange_error:
  assumes "initializerErrors env ctx before = []"
    and "IsControllerEnabled env ctx name"
    and "snd (snd (initFn ctx)) = Some err"
  shows "\<exists>calls. StartControllersRange env ctx mux (before @ (name, initFn) # after) checks =
            (Inl err, calls @ [Sleep, Invoke name])
          \<and> invoked calls = map fst (enabledEntries env ctx before)
          \<and> \<not> list_ex isAddHealthChecker calls"
  using assms(1)
proof (induction before arbitrary: checks)
  case Nil
  obtain ctrl started where r: "initFn ctx = (ctrl, started, Some err)"
    using assms(3) by (cases "initFn ctx") auto
  with assms(2) show ?case by (simp add: enabledEntries_def)
next
  case (Cons entry before)
  obtain n f where entry: "entry = (n, f)" by (cases entry)
  from Cons.prems have rest: "initializerErrors env ctx before = []"
    by (simp add: entry initializerErrors_Cons)
  show ?case
  proof (cases "IsControllerEnabled env ctx n")
    case False
    with Cons.IH [OF rest, of checks] show ?thesis
      by (simp add: entry enabledEntries_def)
  next
    case True
    obtain ctrl started e where r: "f ctx = (ctrl, started, e)"
      by (cases "f ctx")
    from Cons.prems True r have e: "e = None"
      by (simp add: entry initializerErrors_Cons split: option.splits)
    show ?thesis
    proof (cases started)
      case False
      from Cons.IH [OF rest, of checks] obtain calls where
        c: "StartControllersRange env ctx mux (before @ (name, initFn) # after) checks =
            (Inl err, calls @ [Sleep, Invoke name])"
        "invoked calls = map fst (enabledEntries env ctx before)"
        "\<not> list_ex isAddHealthChecker calls" by blast
      have "StartControllersRange env ctx mux ((entry # before) @ (name, initFn) # after) checks =
            (Inl err, ([Sleep, Invoke n] @ calls) @ [Sleep, Invoke name])
          \<and> invoked ([Sleep, Invoke n] @ calls) = map fst (enabledEntries env ctx (entry # before))
          \<and> \<not> list_ex isAddHealthChecker ([Sleep, Invoke n] @ calls)"
        using c True r e False by (simp add: entry enabledEntries_def)
      then show ?thesis by blast
    next
      case started: True
      let ?d = "mountDebugHandler n ctrl mux"
      from Cons.IH [OF rest, of "checks @ [healthCheck n ctrl]"] obtain calls where
        c: "StartControllersRange env ctx mux (before @ (name, initFn) # after)
              (checks @ [healthCheck n ctrl]) = (Inl err, calls @ [Sleep, Invoke name])"
        "invoked calls = map fst (enabledEntries env ctx before)"
        "\<not> list_ex isAddHealthChecker calls" by blast
      have "StartControllersRange env ctx mux ((entry # before) @ (name, initFn) # after) checks =
            (Inl err, ([Sleep, Invoke n] @ ?d @ calls) @ [Sleep, Invoke name])
          \<and> invoked ([Sleep, Invoke n] @ ?d @ calls) = map fst (enabledEntries env ctx (entry # before))
          \<and> \<not> list_ex isAddHealthChecker ([Sleep, Invoke n] @ ?d @ calls)"
        using c True r e started
        by (simp add: entry enabledEntries_def invoked_append invoked_mountDebugHandler
            no_AddHealthChecker_mountDebugHandler)
      then show ?thesis by blast
    qed
  qed
qed
lemma no_AddHealthChecker_registered:
  "\<not> list_ex isAddHealthChecker calls \<Longrightarrow> registered calls = []"
  by (induction calls rule: registered.induct) simp_all

lemma first_initializer_error:
  "initializerErrors env ctx cs \<noteq> [] \<Longrightarrow>
   \<exists>before name initFn after err. cs = before @ (name, initFn) # after
      \<and> initializerErrors env ctx before = []
      \<and> IsControllerEnabled env ctx name \<and> snd (snd (initFn ctx)) = Some err"
proof (induction cs)
  case Nil
  then show ?case by (simp add: initializerErrors_def enabledEntries_def List.map_filter_simps)
next
  case (Cons entry cs)
  obtain n f where entry: "entry = (n, f)" by (cases entry)
  show ?case
  proof (cases "IsControllerEnabled env ctx n \<and> snd (snd (f ctx)) \<noteq> None")
    case True
    then obtain err where "snd (snd (f ctx)) = Some err" by auto
    with True have "entry # cs = [] @ (n, f) # cs \<and> initializerErrors env ctx [] = []
      \<and> IsControllerEnabled env ctx n \<and> snd (snd (f ctx)) = Some err"
      by (simp add: entry initializerErrors_def enabledEntries_def List.map_filter_simps)
    then show ?thesis by blast
  next
    case False
    then have here: "initializerErrors env ctx [(n, f)] = []"
      by (auto simp: initializerErrors_def enabledEntries_def List.map_filter_simps)
    with Cons.prems have "initializerErrors env ctx cs \<noteq> []"
      using False by (auto simp: entry initializerErrors_Cons split: option.splits)
    from Cons.IH [OF this] obtain before name initFn after err where
      h: "cs = before @ (name, initFn) # after" "initializerErrors env ctx before = []"
         "IsControllerEnabled env ctx name" "snd (snd (initFn ctx)) = Some err"
      by blast
    from h False have "entry # cs = (entry # before) @ (name, initFn) # after
      \<and> initializerErrors env ctx (entry # before) = []
      \<and> IsControllerEnabled env ctx name \<and> snd (snd (initFn ctx)) = Some err"
      by (auto simp: entry initializerErrors_Cons split: option.splits)
    then show ?thesis by blast
  qed
qed

text \<open>
  C1. Let the registry, in visiting order, be \<open>before\<close>, then the entry
  \<open>(controllerName, initFn)\<close>, then \<open>after\<close>, where no initializer of an enabled entry
  of \<open>before\<close> returns an error, the controller \<open>controllerName\<close> is enabled and its
  initializer returns the error \<open>err\<close>. Then \<open>StartControllers\<close> returns \<open>err\<close>; the
  initializers it has called are those of the enabled entries of \<open>before\<close> and then
  \<open>initFn\<close>, so none of \<open>after\<close>; the call of \<open>initFn\<close> is the last call it makes; and
  it never calls the health handler.
\<close>

theorem StartControllers_returns_initializer_error:
  assumes "controllers = before @ (controllerName, initFn) # after"
    and "initializerErrors env controllerCtx before = []"
    and "IsControllerEnabled env controllerCtx controllerName"
    and "snd (snd (initFn controllerCtx)) = Some err"
  shows "fst (StartControllers env controllerCtx controllers unsecuredMux) = Some err
     \<and> invoked (snd (StartControllers env controllerCtx controllers unsecuredMux)) =
         map fst (enabledEntries env controllerCtx before) @ [controllerName]
     \<and> last (snd (StartControllers env controllerCtx controllers unsecuredMux)) =
         Invoke controllerName
     \<and> \<not> list_ex isAddHealthChecker
           (snd (StartControllers env controllerCtx controllers unsecuredMux))"
proof -
  from StartControllersRange_error [of env controllerCtx before controllerName initFn err
      unsecuredMux after "[]", OF assms(2) assms(3) assms(4)]
  obtain calls where
    c: "StartControllersRange env controllerCtx unsecuredMux
          (before @ (controllerName, initFn) # after) [] =
        (Inl err, calls @ [Sleep, Invoke controllerName])"
      "invoked calls = map fst (enabledEntries env controllerCtx before)"
      "\<not> list_ex isAddHealthChecker calls"
    by blast
  have sc: "StartControllers env controllerCtx controllers unsecuredMux =
      (Some err, calls @ [Sleep, Invoke controllerName])"
    by (simp add: StartControllers_def assms(1) c(1))
  show ?thesis
    using c(2) c(3) by (simp add: sc invoked_append)
qed

theorem StartControllers_returns_initializer_error_witness:
  "fst (StartControllers sampleEnvironment sampleContext
         [(''estimator'', startsWithProbe), (''foo'', fails), (''node'', fails),
          (''kubean'', startsWithProbe)] None)
     = Some (External ''cannot start'')
   \<and> invoked (snd (StartControllers sampleEnvironment sampleContext
         [(''estimator'', startsWithProbe), (''foo'', fails), (''node'', fails),
          (''kubean'', startsWithProbe)] None))
     = [''estimator'', ''node'']
   \<and> \<not> list_ex isAddHealthChecker (snd (StartControllers sampleEnvironment sampleContext
         [(''estimator'', startsWithProbe), (''foo'', fails), (''node'', fails),
          (''kubean'', startsWithProbe)] None))"
proof -
  have enabled: "IsControllerEnabled sampleEnvironment sampleContext ''estimator''"
    "\<not> IsControllerEnabled sampleEnvironment sampleContext ''foo''"
    "IsControllerEnabled sampleEnvironment sampleContext ''node''"
    by (simp_all add: IsControllerEnabled_def sampleEnvironment_def sampleContext_def
        sampleConfig_def ControllerContext_zero_def generic_IsControllerEnabled_def
        ControllersDisabledByDefault_def)
  have before: "initializerErrors sampleEnvironment sampleContext
      [(''estimator'', startsWithProbe), (''foo'', fails)] = []"
    by (simp add: initializerErrors_def enabledEntries_def enabled List.map_filter_simps
        startsWithProbe_def)
  have err: "snd (snd (fails sampleContext)) = Some (External ''cannot start'')"
    by (simp add: fails_def)
  have entries: "map fst (enabledEntries sampleEnvironment sampleContext
      [(''estimator'', startsWithProbe), (''foo'', fails)]) = [''estimator'']"
    by (simp add: enabledEntries_def enabled)
  show ?thesis
    using StartControllers_returns_initializer_error
      [of "[(''estimator'', startsWithProbe), (''foo'', fails), (''node'', fails),
            (''kubean'', startsWithProbe)]"
          "[(''estimator'', startsWithProbe), (''foo'', fails)]" "''node''" fails
          "[(''kubean'', startsWithProbe)]" sampleEnvironment sampleContext
          "External ''cannot start''" None, OF _ before enabled(3) err]
    by (simp add: entries)
qed

text \<open>
  C3. \<open>StartControllers\<close> returns \<^verbatim>\<open>nil\<close> exactly when no initializer of an enabled
  controller returns an error, so a disabled controller and a controller that declines to
  start cause no error. When it returns \<^verbatim>\<open>nil\<close>, it has called the initializers of the
  enabled controllers, and the health checks it has registered are, in visiting order, one
  for each enabled controller whose initializer reported that it started, and none for
  any other: the controller's own health checker under its name when its handle is
  there, is health-checkable and has a checker, and the ping check under its name
  otherwise. They are registered in one call, which is the last.
\<close>

theorem StartControllers_registers_one_check_per_started_controller:
  "(fst (StartControllers env controllerCtx controllers unsecuredMux) = None
      \<longleftrightarrow> initializerErrors env controllerCtx controllers = [])
   \<and> (fst (StartControllers env controllerCtx controllers unsecuredMux) = None \<longrightarrow>
        registered (snd (StartControllers env controllerCtx controllers unsecuredMux)) =
          map (\<lambda>(name, initFn). expectedHealthCheck name (fst (initFn controllerCtx)))
            (startedEntries env controllerCtx controllers)
      \<and> invoked (snd (StartControllers env controllerCtx controllers unsecuredMux)) =
          map fst (enabledEntries env controllerCtx controllers)
      \<and> (\<exists>calls. snd (StartControllers env controllerCtx controllers unsecuredMux) =
            calls @ [AddHealthChecker
              (map (\<lambda>(name, initFn). expectedHealthCheck name (fst (initFn controllerCtx)))
                 (startedEntries env controllerCtx controllers))]
          \<and> \<not> list_ex isAddHealthChecker calls))"
proof (cases "initializerErrors env controllerCtx controllers = []")
  case True
  let ?checks = "map (\<lambda>(name, initFn). expectedHealthCheck name (fst (initFn controllerCtx)))
                   (startedEntries env controllerCtx controllers)"
  from StartControllersRange_no_error [OF True, of unsecuredMux "[]"] obtain calls where
    c: "StartControllersRange env controllerCtx unsecuredMux controllers [] = (Inr ?checks, calls)"
      "invoked calls = map fst (enabledEntries env controllerCtx controllers)"
      "\<not> list_ex isAddHealthChecker calls"
    by auto
  have sc: "StartControllers env controllerCtx controllers unsecuredMux =
      (None, calls @ [AddHealthChecker ?checks])"
    by (simp add: StartControllers_def c(1))
  have "registered (calls @ [AddHealthChecker ?checks]) = ?checks"
    by (simp add: registered_append no_AddHealthChecker_registered [OF c(3)])
  moreover have "invoked (calls @ [AddHealthChecker ?checks]) =
      map fst (enabledEntries env controllerCtx controllers)"
    by (simp add: invoked_append c(2))
  ultimately show ?thesis
    using True c(3) by (simp add: sc)
next
  case False
  from first_initializer_error [OF False] obtain before name initFn after err where
    h: "controllers = before @ (name, initFn) # after"
       "initializerErrors env controllerCtx before = []"
       "IsControllerEnabled env controllerCtx name"
       "snd (snd (initFn controllerCtx)) = Some err"
    by blast
  from StartControllersRange_error [of env controllerCtx before name initFn err
      unsecuredMux after "[]", OF h(2) h(3) h(4)]
  obtain calls where
    "StartControllersRange env controllerCtx unsecuredMux
          (before @ (name, initFn) # after) [] = (Inl err, calls @ [Sleep, Invoke name])"
    by blast
  then have "fst (StartControllers env controllerCtx controllers unsecuredMux) = Some err"
    by (simp add: StartControllers_def h(1))
  with False show ?thesis by simp
qed

theorem StartControllers_registers_one_check_per_started_controller_witness:
  "fst (StartControllers sampleEnvironment sampleContext
         [(''foo'', fails), (''node'', declines), (''estimator'', startsWithProbe),
          (''kubean'', (\<lambda>controllerCtx. (None, True, None)))] None) = None
   \<and> registered (snd (StartControllers sampleEnvironment sampleContext
         [(''foo'', fails), (''node'', declines), (''estimator'', startsWithProbe),
          (''kubean'', (\<lambda>controllerCtx. (None, True, None)))] None))
     = [NamedHealthChecker ''estimator'' (UnnamedHealthChecker ''probe''),
        NamedPingChecker ''kubean'']"
proof -
  let ?registry = "[(''foo'', fails), (''node'', declines), (''estimator'', startsWithProbe),
          (''kubean'', (\<lambda>controllerCtx. (None, True, None)))]"
  have enabled: "\<not> IsControllerEnabled sampleEnvironment sampleContext ''foo''"
    "IsControllerEnabled sampleEnvironment sampleContext ''node''"
    "IsControllerEnabled sampleEnvironment sampleContext ''estimator''"
    "IsControllerEnabled sampleEnvironment sampleContext ''kubean''"
    by (simp_all add: IsControllerEnabled_def sampleEnvironment_def sampleContext_def
        sampleConfig_def ControllerContext_zero_def generic_IsControllerEnabled_def
        ControllersDisabledByDefault_def)
  have none: "initializerErrors sampleEnvironment sampleContext ?registry = []"
    by (simp add: initializerErrors_def enabledEntries_def enabled List.map_filter_simps
        startsWithProbe_def declines_def)
  have checks: "map (\<lambda>(name, initFn). expectedHealthCheck name (fst (initFn sampleContext)))
            (startedEntries sampleEnvironment sampleContext ?registry)
     = [NamedHealthChecker ''estimator'' (UnnamedHealthChecker ''probe''),
        NamedPingChecker ''kubean'']"
    by (simp add: startedEntries_def enabledEntries_def enabled startsWithProbe_def
        declines_def expectedHealthCheck_def ownHealthChecker_def)
  show ?thesis
    using StartControllers_registers_one_check_per_started_controller
      [of sampleEnvironment sampleContext ?registry None]
    by (simp add: none checks)
qed

section \<open>Properties of the controller context\<close>


lemma CreateControllerContext_success:
  "CreateControllerContext env s kb fb cs = Some (ctx, None, cs') \<Longrightarrow>
   cs' = cs @ [False] \<and> InformersStarted ctx = Some (length cs)
   \<and> None \<notin> set (informerFactories ctx) \<and> length (informerFactories ctx) = 8
   \<and> ComponentConfig ctx = CompletedConfig.ComponentConfig s"
  unfolding CreateControllerContext_def Let_def make_chan_def informerFactories_def
  by (auto split: Option.bind_splits option.splits sum.splits)

lemma startInformerFactories_all:
  "None \<notin> set factories \<Longrightarrow>
   startInformerFactories factories = (True, map (\<lambda>factory. Start (the factory)) factories)"
  by (induction factories rule: startInformerFactories.induct) simp_all

lemma close_fresh_chan:
  "close_chan (Some (length cs)) (cs @ [False]) = Some (length cs, cs @ [True])"
  by (simp add: close_chan_def)


lemma sample_parses:
  "schema_ParseGroupVersion ''v1'' = Inr \<lparr>Group = [], Version = ''v1''\<rparr>"
  "schema_ParseGroupVersion ''apps/v1'' = Inr \<lparr>Group = ''apps'', Version = ''v1''\<rparr>"
  by (simp_all add: schema_ParseGroupVersion_def)

lemma sample_karmada_resources:
  "\<exists>resources. GetKarmadaAvailableResources sampleEnvironment sampleKarmadaBuilder =
     Some (Inr resources)"
  by (simp add: GetKarmadaAvailableResources_def sampleKarmadaBuilder_def
      sampleKarmadaDiscovery_def GetAvailableResources_def sampleEnvironment_def sample_parses)

lemma sample_host_resources:
  "\<exists>resources. GetHostClusterAvailableResources sampleEnvironment sampleFireflyBuilder =
     Some (Inr resources)"
  by (simp add: GetHostClusterAvailableResources_def sampleFireflyBuilder_def
      sampleHostDiscovery_def GetAvailableResources_def sampleEnvironment_def sample_parses)



lemma sample_builders:
  "KarmadaControllerClientBuilder.ClientOrDie sampleKarmadaBuilder name =
     Some \<lparr>UserAgent = name, Discovery = sampleKarmadaDiscovery\<rparr>"
  "KarmadaControllerClientBuilder.ClientOrDie brokenKarmadaBuilder name =
     Some \<lparr>UserAgent = name, Discovery = brokenDiscovery\<rparr>"
  "KarmadaControllerClientBuilder.DynamicClientOrDie sampleKarmadaBuilder name =
     Some (DynamicClient name)"
  "KarmadaControllerClientBuilder.DynamicClientOrDie brokenKarmadaBuilder name =
     Some (DynamicClient name)"
  "KarmadaFireflyClientOrDie sampleKarmadaBuilder name = Some (KarmadaFireflyClient name)"
  "KarmadaFireflyClientOrDie brokenKarmadaBuilder name = Some (KarmadaFireflyClient name)"
  "KarmadaControllerClientBuilder.ConfigOrDie sampleKarmadaBuilder name = Some (RestConfig name)"
  "KarmadaControllerClientBuilder.ConfigOrDie brokenKarmadaBuilder name = Some (RestConfig name)"
  "DiscoveryClientOrDie sampleKarmadaBuilder name = Some sampleKarmadaDiscovery"
  "DiscoveryClientOrDie brokenKarmadaBuilder name = Some sampleKarmadaDiscovery"
  "FireflyControllerClientBuilder.ClientOrDie sampleFireflyBuilder name =
     Some \<lparr>UserAgent = name, Discovery = sampleHostDiscovery\<rparr>"
  "FireflyControllerClientBuilder.ClientOrDie brokenFireflyBuilder name =
     Some \<lparr>UserAgent = name, Discovery = brokenDiscovery\<rparr>"
  "FireflyControllerClientBuilder.DynamicClientOrDie sampleFireflyBuilder name =
     Some (DynamicClient name)"
  "FireflyControllerClientBuilder.DynamicClientOrDie brokenFireflyBuilder name =
     Some (DynamicClient name)"
  "FireflyControllerClientBuilder.ConfigOrDie sampleFireflyBuilder name = Some (RestConfig name)"
  "FireflyControllerClientBuilder.ConfigOrDie brokenFireflyBuilder name = Some (RestConfig name)"
  by (simp_all add: sampleKarmadaBuilder_def brokenKarmadaBuilder_def sampleFireflyBuilder_def
      brokenFireflyBuilder_def)

lemma sample_environment:
  "WaitForAPIServer sampleEnvironment client = None"
  "karmadaNewForConfigOrDie sampleEnvironment config = Some (KarmadaClient ''karmada'')"
  "fireflyNewForConfigOrDie sampleEnvironment config = Some (FireflyClient ''firefly'')"
  "metadataNewForConfigOrDie sampleEnvironment config = Some (MetadataClient ''metadata'')"
  "rangeOrder sampleEnvironment initializers = initializers"
  by (simp_all add: sampleEnvironment_def)


section \<open>Properties of run and Run\<close>

lemma StartControllersRange_calls:
  "StartControllersRange env ctx mux cs checks = (res, calls) \<Longrightarrow>
   list_all madeByStartControllers calls"
proof (induction cs arbitrary: checks res calls)
  case Nil
  then show ?case by simp
next
  case (Cons entry cs)
  obtain name initFn where entry: "entry = (name, initFn)" by (cases entry)
  obtain ctrl started err where r: "initFn ctx = (ctrl, started, err)" by (cases "initFn ctx")
  have d: "list_all madeByStartControllers (mountDebugHandler name ctrl mux)"
    by (simp add: mountDebugHandler_def Let_def split: option.splits)
  show ?case
    using Cons.prems Cons.IH d
    by (auto simp: entry r split: option.splits prod.splits if_splits)
qed

lemma StartControllers_calls:
  "list_all madeByStartControllers (snd (StartControllers env ctx cs mux))"
proof -
  obtain res calls where l: "StartControllersRange env ctx mux cs [] = (res, calls)"
    by (cases "StartControllersRange env ctx mux cs []")
  from StartControllersRange_calls [OF l] l show ?thesis
    by (cases res) (simp_all add: StartControllers_def)
qed

lemma madeByStartControllers_kinds:
  "list_all madeByStartControllers calls \<Longrightarrow>
   \<not> list_ex isStart calls \<and> \<not> list_ex isClose calls
   \<and> \<not> list_ex isMigrationLockElection calls \<and> Receive r \<notin> set calls"
proof (induction calls)
  case Nil
  show ?case by simp
next
  case (Cons call calls)
  then show ?case by (cases call) simp_all
qed

lemma StartControllers_completed:
  assumes "StartControllers env ctx cs mux = (None, calls)"
  shows "initializerErrors env ctx cs = [] \<and> invoked calls = map fst (enabledEntries env ctx cs)"
proof (cases "initializerErrors env ctx cs = []")
  case True
  from StartControllersRange_no_error [OF True, of mux "[]"] obtain loop where
    l: "StartControllersRange env ctx mux cs [] =
          (Inr ([] @ map (\<lambda>(name, initFn). expectedHealthCheck name (fst (initFn ctx)))
                       (startedEntries env ctx cs)), loop)"
       "invoked loop = map fst (enabledEntries env ctx cs)"
    by blast
  from assms l(1) have "calls = loop @ [AddHealthChecker
      (map (\<lambda>(name, initFn). expectedHealthCheck name (fst (initFn ctx)))
         (startedEntries env ctx cs))]"
    by (simp add: StartControllers_def)
  with l(2) True show ?thesis by (simp add: invoked_append)
next
  case False
  from first_initializer_error [OF False] obtain before name initFn after err where
    h: "cs = before @ (name, initFn) # after" "initializerErrors env ctx before = []"
       "IsControllerEnabled env ctx name" "snd (snd (initFn ctx)) = Some err"
    by blast
  from StartControllersRange_error [of env ctx before name initFn err mux after "[]",
      OF h(2) h(3) h(4)]
  obtain loop where
    "StartControllersRange env ctx mux (before @ (name, initFn) # after) [] =
       (Inl err, loop @ [Sleep, Invoke name])"
    by blast
  with assms h(1) show ?thesis by (simp add: StartControllers_def)
qed

lemma invoked_starts: "invoked (map (\<lambda>factory. Start (the factory)) factories) = []"
  by (induction factories) simp_all

lemma starts_kinds:
  "list_all isStart (map (\<lambda>factory. Start (the factory)) factories)"
  "\<not> list_ex isClose (map (\<lambda>factory. Start (the factory)) factories)"
  "\<not> list_ex isMigrationLockElection (map (\<lambda>factory. Start (the factory)) factories)"
  by (induction factories) simp_all

text \<open>
  The shape of \<open>run\<close>: either the process exits before any informer factory is started,
  with no call made or with the calls of a \<open>StartControllers\<close> that returned an error, or
  the context was built, \<open>StartControllers\<close> returned \<^verbatim>\<open>nil\<close>, the eight factories were
  started, the channel made with the context was closed and \<open>run\<close> waits for the context
  to be done.
\<close>

lemma run_shape:
  assumes "run env c kb fb mux ctxDone initializersFunc cs = (status, calls, cs')"
  shows "(status = Exited \<and> list_all madeByStartControllers calls
          \<and> (calls = [] \<or> (\<exists>ctx cs1 err. CreateControllerContext env c kb fb cs = Some (ctx, None, cs1)
               \<and> StartControllers env ctx (rangeOrder env initializersFunc) mux = (Some err, calls))))
       \<or> (\<exists>ctx loop.
            CreateControllerContext env c kb fb cs = Some (ctx, None, cs @ [False])
          \<and> StartControllers env ctx (rangeOrder env initializersFunc) mux = (None, loop)
          \<and> InformersStarted ctx = Some (length cs)
          \<and> None \<notin> set (informerFactories ctx) \<and> length (informerFactories ctx) = 8
          \<and> calls = loop @ map (\<lambda>factory. Start (the factory)) (informerFactories ctx)
                @ [Close (length cs)] @ (if ctxDone then [Receive CtxDone] else [])
          \<and> status = (if ctxDone then Returned None else Blocked)
          \<and> cs' = cs @ [True])"
proof (cases "CreateControllerContext env c kb fb cs")
  case None
  with assms show ?thesis by (simp add: run_def)
next
  case (Some r)
  obtain ctx e cs1 where r: "r = (ctx, e, cs1)" by (cases r)
  show ?thesis
  proof (cases e)
    case (Some err)
    with assms \<open>CreateControllerContext env c kb fb cs = Some r\<close> r show ?thesis
      by (simp add: run_def)
  next
    case None
    note cc = \<open>CreateControllerContext env c kb fb cs = Some r\<close> [unfolded r None]
    from CreateControllerContext_success [OF cc]
    have s: "cs1 = cs @ [False]" "InformersStarted ctx = Some (length cs)"
      "None \<notin> set (informerFactories ctx)" "length (informerFactories ctx) = 8"
      by simp_all
    obtain res loop where sc:
      "StartControllers env ctx (rangeOrder env initializersFunc) mux = (res, loop)"
      by (cases "StartControllers env ctx (rangeOrder env initializersFunc) mux")
    have kinds: "list_all madeByStartControllers loop"
      using StartControllers_calls [of env ctx "rangeOrder env initializersFunc" mux]
      by (simp add: sc)
    show ?thesis
    proof (cases res)
      case (Some err)
      with assms cc sc kinds show ?thesis
        by (auto simp: run_def Let_def)
    next
      case no: None
      have "run env c kb fb mux ctxDone initializersFunc cs =
          (if ctxDone then Returned None else Blocked,
           loop @ map (\<lambda>factory. Start (the factory)) (informerFactories ctx)
                @ [Close (length cs)] @ (if ctxDone then [Receive CtxDone] else []),
           cs @ [True])"
        by (simp add: run_def Let_def cc sc no startInformerFactories_all [OF s(3)]
            s(1) s(2) close_fresh_chan)
      with assms cc sc no s show ?thesis by auto
    qed
  qed
qed

lemma before_first_Start:
  assumes "list_all madeByStartControllers loop" and "factories \<noteq> []"
  shows "takeWhile (\<lambda>call. \<not> isStart call)
           (loop @ map (\<lambda>factory. Start (the factory)) factories @ rest) = loop"
    and "dropWhile (\<lambda>call. \<not> isStart call)
           (loop @ map (\<lambda>factory. Start (the factory)) factories @ rest) =
         map (\<lambda>factory. Start (the factory)) factories @ rest"
proof -
  from assms(1) have "\<not> list_ex isStart loop"
    by (simp add: madeByStartControllers_kinds)
  then have no: "\<And>call. call \<in> set loop \<Longrightarrow> \<not> isStart call"
    by (simp add: list_ex_iff)
  from assms(2) obtain factory others where f: "factories = factory # others"
    by (cases factories) auto
  show "takeWhile (\<lambda>call. \<not> isStart call)
           (loop @ map (\<lambda>factory. Start (the factory)) factories @ rest) = loop"
    using no by (simp add: takeWhile_append2 f)
  show "dropWhile (\<lambda>call. \<not> isStart call)
           (loop @ map (\<lambda>factory. Start (the factory)) factories @ rest) =
         map (\<lambda>factory. Start (the factory)) factories @ rest"
    using no by (simp add: dropWhile_append2 f)
qed

lemma enabledEntries_permutation:
  "mset visited = mset registry \<Longrightarrow>
   mset (map fst (enabledEntries env ctx visited)) = mset (map fst (enabledEntries env ctx registry))"
  by (simp add: enabledEntries_def mset_filter)

text \<open>
  C4, as the code has it. Let the loop of \<open>StartControllers\<close> visit every entry of the
  registry of the epoch once, in whatever order. Whenever \<open>run\<close> starts an informer
  factory, the context was built without error, and the calls \<open>run\<close> made before the
  first \<^verbatim>\<open>Start\<close> are exactly the calls of \<open>StartControllers\<close> on that registry, which
  returned \<^verbatim>\<open>nil\<close>: the initializer of every controller of the registry that is enabled
  by policy was called (and returned) before, once for each of its entries, and no
  initializer is called from the first \<^verbatim>\<open>Start\<close> on. The initializer of a controller
  that the policy disables is not called at all.
\<close>

theorem run_starts_informers_after_StartControllers:
  assumes "run env c karmadaClientBuilder fireflyKubeClientBuilder unsecuredMux ctxDone
             initializersFunc cs = (status, calls, cs')"
    and "mset (rangeOrder env initializersFunc) = mset initializersFunc"
    and "list_ex isStart calls"
  shows "\<exists>controllerContext cs1.
           CreateControllerContext env c karmadaClientBuilder fireflyKubeClientBuilder cs =
             Some (controllerContext, None, cs1)
         \<and> StartControllers env controllerContext (rangeOrder env initializersFunc)
               unsecuredMux = (None, beforeFirst isStart calls)
         \<and> mset (invoked (beforeFirst isStart calls)) =
             mset (map fst (enabledEntries env controllerContext initializersFunc))
         \<and> invoked (beforeFirst isStart calls) =
             map fst (enabledEntries env controllerContext (rangeOrder env initializersFunc))
         \<and> invoked (fromFirst isStart calls) = []"
proof -
  from run_shape [OF assms(1)] assms(3)
  obtain ctx loop where
    h: "CreateControllerContext env c karmadaClientBuilder fireflyKubeClientBuilder cs =
          Some (ctx, None, cs @ [False])"
       "StartControllers env ctx (rangeOrder env initializersFunc) unsecuredMux = (None, loop)"
       "length (informerFactories ctx) = 8"
       "calls = loop @ map (\<lambda>factory. Start (the factory)) (informerFactories ctx)
                @ [Close (length cs)] @ (if ctxDone then [Receive CtxDone] else [])"
    using madeByStartControllers_kinds by blast
  have kinds: "list_all madeByStartControllers loop"
    using StartControllers_calls [of env ctx "rangeOrder env initializersFunc" unsecuredMux]
    by (simp add: h(2))
  from h(3) have ne: "informerFactories ctx \<noteq> []" by auto
  note split = before_first_Start [OF kinds ne,
      of "[Close (length cs)] @ (if ctxDone then [Receive CtxDone] else [])"]
  have before: "takeWhile (\<lambda>call. \<not> isStart call) calls = loop"
    unfolding h(4) by (rule split(1))
  have after: "invoked (dropWhile (\<lambda>call. \<not> isStart call) calls) = []"
    unfolding h(4) split(2) by (simp add: invoked_append invoked_starts)
  from StartControllers_completed [OF h(2)]
  have visited: "invoked loop = map fst (enabledEntries env ctx (rangeOrder env initializersFunc))"
    by simp
  have every: "mset (invoked loop) = mset (map fst (enabledEntries env ctx initializersFunc))"
    unfolding visited by (rule enabledEntries_permutation [OF assms(2)])
  from h(1) h(2) before after visited every show ?thesis
    by (auto simp: beforeFirst_def fromFirst_def)
qed

lemma run_completes:
  assumes "CreateControllerContext env c kb fb cs = Some (ctx, None, cs1)"
    and "StartControllers env ctx (rangeOrder env initializersFunc) mux = (None, loop)"
  shows "run env c kb fb mux ctxDone initializersFunc cs =
          (if ctxDone then Returned None else Blocked,
           loop @ map (\<lambda>factory. Start (the factory)) (informerFactories ctx)
                @ [Close (length cs)] @ (if ctxDone then [Receive CtxDone] else []),
           cs @ [True])"
proof -
  from CreateControllerContext_success [OF assms(1)]
  have s: "cs1 = cs @ [False]" "InformersStarted ctx = Some (length cs)"
    "None \<notin> set (informerFactories ctx)"
    by simp_all
  show ?thesis
    by (simp add: run_def Let_def assms startInformerFactories_all [OF s(3)]
        s(1) s(2) close_fresh_chan)
qed

text \<open>The operations at the concrete environment.\<close>

lemma sample_context_built:
  "\<exists>ctx. CreateControllerContext sampleEnvironment sampleConfig sampleKarmadaBuilder
            sampleFireflyBuilder [] = Some (ctx, None, [False])"
proof -
  obtain karmada where
    k: "GetKarmadaAvailableResources sampleEnvironment sampleKarmadaBuilder = Some (Inr karmada)"
    using sample_karmada_resources by blast
  obtain host where
    h: "GetHostClusterAvailableResources sampleEnvironment sampleFireflyBuilder = Some (Inr host)"
    using sample_host_resources by blast
  show ?thesis
    by (simp add: CreateControllerContext_def Let_def sample_builders sample_environment k h
        make_chan_def)
qed

lemma sample_enabled:
  assumes "ComponentConfig ctx = CompletedConfig.ComponentConfig sampleConfig"
  shows "IsControllerEnabled sampleEnvironment ctx ''estimator''"
    and "IsControllerEnabled sampleEnvironment ctx ''node''"
    and "\<not> IsControllerEnabled sampleEnvironment ctx ''foo''"
    and "IsControllerEnabled sampleEnvironment ctx ''kubean''"
  by (simp_all add: IsControllerEnabled_def assms sampleEnvironment_def sampleConfig_def
      generic_IsControllerEnabled_def ControllersDisabledByDefault_def)

lemma sample_initializers:
  "NewControllerInitializers sampleEnvironment =
     [(''estimator'', startsWithProbe), (''node'', declines), (''foo'', startsWithProbe),
      (''kubean'', declines)]"
  by (simp add: NewControllerInitializers_def sampleEnvironment_def)

lemma sample_StartControllers:
  assumes "ComponentConfig ctx = CompletedConfig.ComponentConfig sampleConfig"
  shows "StartControllers sampleEnvironment ctx (NewControllerInitializers sampleEnvironment)
           None =
         (None, [Sleep, Invoke ''estimator'', Sleep, Invoke ''node'', Sleep, Invoke ''kubean'',
                 AddHealthChecker
                   [NamedHealthChecker ''estimator'' (UnnamedHealthChecker ''probe'')]])"
  by (simp add: StartControllers_def sample_initializers sample_enabled [OF assms]
      startsWithProbe_def declines_def mountDebugHandler_def healthCheck_def)

lemma sample_run:
  "\<exists>ctx. CreateControllerContext sampleEnvironment sampleConfig sampleKarmadaBuilder
            sampleFireflyBuilder [] = Some (ctx, None, [False])
     \<and> ComponentConfig ctx = CompletedConfig.ComponentConfig sampleConfig
     \<and> length (informerFactories ctx) = 8
     \<and> run sampleEnvironment sampleConfig sampleKarmadaBuilder sampleFireflyBuilder None False
         (NewControllerInitializers sampleEnvironment) [] =
        (Blocked,
         [Sleep, Invoke ''estimator'', Sleep, Invoke ''node'', Sleep, Invoke ''kubean'',
          AddHealthChecker [NamedHealthChecker ''estimator'' (UnnamedHealthChecker ''probe'')]]
           @ map (\<lambda>factory. Start (the factory)) (informerFactories ctx) @ [Close 0],
         [True])"
proof -
  obtain ctx where cc: "CreateControllerContext sampleEnvironment sampleConfig
      sampleKarmadaBuilder sampleFireflyBuilder [] = Some (ctx, None, [False])"
    using sample_context_built by blast
  from CreateControllerContext_success [OF cc]
  have s: "ComponentConfig ctx = CompletedConfig.ComponentConfig sampleConfig"
    "length (informerFactories ctx) = 8"
    by simp_all
  have sc: "StartControllers sampleEnvironment ctx
      (rangeOrder sampleEnvironment (NewControllerInitializers sampleEnvironment)) None =
         (None, [Sleep, Invoke ''estimator'', Sleep, Invoke ''node'', Sleep, Invoke ''kubean'',
                 AddHealthChecker
                   [NamedHealthChecker ''estimator'' (UnnamedHealthChecker ''probe'')]])"
    by (simp add: sample_environment sample_StartControllers [OF s(1)])
  from run_completes [OF cc sc, of False] cc s show ?thesis
    by (intro exI [of _ ctx]) simp
qed

theorem run_starts_informers_after_StartControllers_witness:
  "invoked (beforeFirst isStart
      (fst (snd (run sampleEnvironment sampleConfig sampleKarmadaBuilder sampleFireflyBuilder
                  None False (NewControllerInitializers sampleEnvironment) []))))
     = [''estimator'', ''node'', ''kubean'']
   \<and> invoked (fromFirst isStart
      (fst (snd (run sampleEnvironment sampleConfig sampleKarmadaBuilder sampleFireflyBuilder
                  None False (NewControllerInitializers sampleEnvironment) []))))
     = []"
proof -
  let ?run = "run sampleEnvironment sampleConfig sampleKarmadaBuilder sampleFireflyBuilder
                  None False (NewControllerInitializers sampleEnvironment) []"
  obtain ctx0 where
    cc: "CreateControllerContext sampleEnvironment sampleConfig sampleKarmadaBuilder
            sampleFireflyBuilder [] = Some (ctx0, None, [False])"
    and cfg: "ComponentConfig ctx0 = CompletedConfig.ComponentConfig sampleConfig"
    and len: "length (informerFactories ctx0) = 8"
    and r: "?run =
        (Blocked,
         [Sleep, Invoke ''estimator'', Sleep, Invoke ''node'', Sleep, Invoke ''kubean'',
          AddHealthChecker [NamedHealthChecker ''estimator'' (UnnamedHealthChecker ''probe'')]]
           @ map (\<lambda>factory. Start (the factory)) (informerFactories ctx0) @ [Close 0],
         [True])"
    using sample_run by blast
  from len obtain factory others where f: "informerFactories ctx0 = factory # others"
    by (cases "informerFactories ctx0") auto
  have eq: "?run = (fst ?run, fst (snd ?run), snd (snd ?run))" by simp
  have started: "list_ex isStart (fst (snd ?run))"
    by (simp add: r f)
  have visits: "mset (rangeOrder sampleEnvironment (NewControllerInitializers sampleEnvironment)) =
      mset (NewControllerInitializers sampleEnvironment)"
    by (simp add: sample_environment)
  from run_starts_informers_after_StartControllers [OF eq visits started]
  obtain ctx cs1 where
    h: "CreateControllerContext sampleEnvironment sampleConfig sampleKarmadaBuilder
            sampleFireflyBuilder [] = Some (ctx, None, cs1)"
       "invoked (beforeFirst isStart (fst (snd ?run))) =
          map fst (enabledEntries sampleEnvironment ctx
            (rangeOrder sampleEnvironment (NewControllerInitializers sampleEnvironment)))"
       "invoked (fromFirst isStart (fst (snd ?run))) = []"
    by blast
  from h(1) cc have "ctx = ctx0" by simp
  then have "map fst (enabledEntries sampleEnvironment ctx
            (rangeOrder sampleEnvironment (NewControllerInitializers sampleEnvironment))) =
      [''estimator'', ''node'', ''kubean'']"
    by (simp add: enabledEntries_def sample_environment sample_initializers
        sample_enabled [OF cfg])
  with h(2) h(3) show ?thesis by simp
qed

text \<open>
  C4 as the specification states it (every initializer of the registry has been called
  before an informer factory is started) fails: in the concrete configuration the
  controller \<^verbatim>\<open>foo\<close> is in the registry and disabled by policy, \<open>run\<close> starts the
  informer factories, and the initializer of \<^verbatim>\<open>foo\<close> is never called.
\<close>

theorem run_starts_informers_without_disabled_initializer:
  "list_ex isStart
     (fst (snd (run sampleEnvironment sampleConfig sampleKarmadaBuilder sampleFireflyBuilder
                  None False (NewControllerInitializers sampleEnvironment) [])))
   \<and> ''foo'' \<in> set (map fst (NewControllerInitializers sampleEnvironment))
   \<and> ''foo'' \<notin> set (invoked
       (fst (snd (run sampleEnvironment sampleConfig sampleKarmadaBuilder sampleFireflyBuilder
                    None False (NewControllerInitializers sampleEnvironment) []))))"
proof -
  obtain ctx0 where
    len: "length (informerFactories ctx0) = 8"
    and r: "run sampleEnvironment sampleConfig sampleKarmadaBuilder sampleFireflyBuilder
                  None False (NewControllerInitializers sampleEnvironment) [] =
        (Blocked,
         [Sleep, Invoke ''estimator'', Sleep, Invoke ''node'', Sleep, Invoke ''kubean'',
          AddHealthChecker [NamedHealthChecker ''estimator'' (UnnamedHealthChecker ''probe'')]]
           @ map (\<lambda>factory. Start (the factory)) (informerFactories ctx0) @ [Close 0],
         [True])"
    using sample_run by blast
  from len obtain factory others where f: "informerFactories ctx0 = factory # others"
    by (cases "informerFactories ctx0") auto
  show ?thesis
    unfolding r by (simp add: f sample_initializers invoked_append invoked_starts)
qed

text \<open>
  C5, as the code has it. \<open>run\<close> never panics. Whenever it starts an informer factory
  or closes a channel, the context was built without error and the calls of \<open>run\<close> are:
  calls that neither start a factory nor close a channel, then the \<^verbatim>\<open>Start\<close> calls of
  all eight informer factories of the context, then the one statement closing
  \<^verbatim>\<open>InformersStarted\<close>, a channel made with this context and so open until then, then
  calls that neither start a factory nor close a channel. So every \<^verbatim>\<open>Start\<close> comes
  before the close, and the close executes once.
\<close>

theorem run_closes_InformersStarted_after_starting_informers:
  assumes "run env c karmadaClientBuilder fireflyKubeClientBuilder unsecuredMux ctxDone
             initializersFunc cs = (status, calls, cs')"
  shows "status \<noteq> Panicked
     \<and> (list_ex isStart calls \<or> list_ex isClose calls \<longrightarrow>
          (\<exists>controllerContext before after.
              CreateControllerContext env c karmadaClientBuilder fireflyKubeClientBuilder cs =
                Some (controllerContext, None, cs @ [False])
            \<and> InformersStarted controllerContext = Some (length cs)
            \<and> None \<notin> set (informerFactories controllerContext)
            \<and> length (informerFactories controllerContext) = 8
            \<and> calls = before
                @ map (\<lambda>factory. Start (the factory)) (informerFactories controllerContext)
                @ [Close (length cs)] @ after
            \<and> \<not> list_ex isStart before \<and> \<not> list_ex isClose before
            \<and> \<not> list_ex isStart after \<and> \<not> list_ex isClose after
            \<and> cs' = cs @ [True]))"
proof -
  from run_shape [OF assms]
  consider
    (exited) "status = Exited" "list_all madeByStartControllers calls"
  | (started) ctx loop where
      "CreateControllerContext env c karmadaClientBuilder fireflyKubeClientBuilder cs =
         Some (ctx, None, cs @ [False])"
      "StartControllers env ctx (rangeOrder env initializersFunc) unsecuredMux = (None, loop)"
      "InformersStarted ctx = Some (length cs)"
      "None \<notin> set (informerFactories ctx)" "length (informerFactories ctx) = 8"
      "calls = loop @ map (\<lambda>factory. Start (the factory)) (informerFactories ctx)
                @ [Close (length cs)] @ (if ctxDone then [Receive CtxDone] else [])"
      "status = (if ctxDone then Returned None else Blocked)"
      "cs' = cs @ [True]"
    by blast
  then show ?thesis
  proof cases
    case exited
    from madeByStartControllers_kinds [OF exited(2)] exited(1) show ?thesis by simp
  next
    case started
    have "list_all madeByStartControllers loop"
      using StartControllers_calls [of env ctx "rangeOrder env initializersFunc" unsecuredMux]
      by (simp add: started(2))
    then have loop: "\<not> list_ex isStart loop" "\<not> list_ex isClose loop"
      by (simp_all add: madeByStartControllers_kinds)
    have rest: "\<not> list_ex isStart (if ctxDone then [Receive CtxDone] else [])"
      "\<not> list_ex isClose (if ctxDone then [Receive CtxDone] else [])"
      by simp_all
    have "status \<noteq> Panicked" by (simp add: started(7))
    moreover have "\<exists>controllerContext before after.
              CreateControllerContext env c karmadaClientBuilder fireflyKubeClientBuilder cs =
                Some (controllerContext, None, cs @ [False])
            \<and> InformersStarted controllerContext = Some (length cs)
            \<and> None \<notin> set (informerFactories controllerContext)
            \<and> length (informerFactories controllerContext) = 8
            \<and> calls = before
                @ map (\<lambda>factory. Start (the factory)) (informerFactories controllerContext)
                @ [Close (length cs)] @ after
            \<and> \<not> list_ex isStart before \<and> \<not> list_ex isClose before
            \<and> \<not> list_ex isStart after \<and> \<not> list_ex isClose after
            \<and> cs' = cs @ [True]"
      using started(1,3,4,5,6,8) loop rest by blast
    ultimately show ?thesis by simp
  qed
qed

lemma calls_around_close:
  assumes "calls = before @ map (\<lambda>factory. Start (the factory)) factories @ [Close ch] @ after"
    and "\<not> list_ex isStart before" "\<not> list_ex isClose before"
    and "\<not> list_ex isStart after" "\<not> list_ex isClose after"
  shows "length (filter isStart (takeWhile (\<lambda>call. \<not> isClose call) calls)) = length factories"
    and "\<not> list_ex isStart (dropWhile (\<lambda>call. \<not> isClose call) calls)"
    and "length (filter isClose calls) = 1"
proof -
  let ?starts = "map (\<lambda>factory. Start (the factory)) factories"
  have open_before: "\<And>call. call \<in> set (before @ ?starts) \<Longrightarrow> \<not> isClose call"
    using assms(3) by (auto simp: list_ex_iff)
  have calls: "calls = (before @ ?starts) @ Close ch # after"
    by (simp add: assms(1))
  have "takeWhile (\<lambda>call. \<not> isClose call) ((before @ ?starts) @ Close ch # after) =
      takeWhile (\<lambda>call. \<not> isClose call) (before @ ?starts)"
    by (rule takeWhile_tail) simp
  also have "\<dots> = before @ ?starts"
    using open_before by (simp only: takeWhile_eq_all_conv) blast
  finally have t: "takeWhile (\<lambda>call. \<not> isClose call) calls = before @ ?starts"
    by (simp only: calls)
  have "dropWhile (\<lambda>call. \<not> isClose call) ((before @ ?starts) @ Close ch # after) =
      dropWhile (\<lambda>call. \<not> isClose call) (before @ ?starts) @ Close ch # after"
    by (rule dropWhile_append3) simp
  moreover have "dropWhile (\<lambda>call. \<not> isClose call) (before @ ?starts) = []"
    using open_before by (simp only: dropWhile_eq_Nil_conv) blast
  ultimately have d: "dropWhile (\<lambda>call. \<not> isClose call) calls = Close ch # after"
    by (simp only: calls append_Nil)
  have none: "filter isStart before = []" "filter isClose before = []"
    "filter isClose after = []" "filter isClose ?starts = []"
    using assms(2,3,5) by (auto simp: list_ex_iff filter_empty_conv)
  have all: "filter isStart ?starts = ?starts"
    by (induction factories) simp_all
  show "length (filter isStart (takeWhile (\<lambda>call. \<not> isClose call) calls)) = length factories"
    by (simp add: t none all)
  show "\<not> list_ex isStart (dropWhile (\<lambda>call. \<not> isClose call) calls)"
    using assms(4) by (simp add: d)
  show "length (filter isClose calls) = 1"
    by (simp add: assms(1) none)
qed

theorem run_closes_InformersStarted_after_starting_informers_witness:
  "fst (run sampleEnvironment sampleConfig sampleKarmadaBuilder sampleFireflyBuilder None False
          (NewControllerInitializers sampleEnvironment) []) \<noteq> Panicked
   \<and> length (filter isStart (beforeFirst isClose
        (fst (snd (run sampleEnvironment sampleConfig sampleKarmadaBuilder sampleFireflyBuilder
                    None False (NewControllerInitializers sampleEnvironment) []))))) = 8
   \<and> \<not> list_ex isStart (fromFirst isClose
        (fst (snd (run sampleEnvironment sampleConfig sampleKarmadaBuilder sampleFireflyBuilder
                    None False (NewControllerInitializers sampleEnvironment) []))))
   \<and> length (filter isClose
        (fst (snd (run sampleEnvironment sampleConfig sampleKarmadaBuilder sampleFireflyBuilder
                    None False (NewControllerInitializers sampleEnvironment) [])))) = 1"
proof -
  let ?run = "run sampleEnvironment sampleConfig sampleKarmadaBuilder sampleFireflyBuilder
                  None False (NewControllerInitializers sampleEnvironment) []"
  obtain ctx0 where
    len: "length (informerFactories ctx0) = 8"
    and r: "?run =
        (Blocked,
         [Sleep, Invoke ''estimator'', Sleep, Invoke ''node'', Sleep, Invoke ''kubean'',
          AddHealthChecker [NamedHealthChecker ''estimator'' (UnnamedHealthChecker ''probe'')]]
           @ map (\<lambda>factory. Start (the factory)) (informerFactories ctx0) @ [Close 0],
         [True])"
    using sample_run by blast
  have closes: "list_ex isStart (fst (snd ?run)) \<or> list_ex isClose (fst (snd ?run))"
    unfolding r by simp
  have eq: "?run = (fst ?run, fst (snd ?run), snd (snd ?run))" by simp
  note shape = run_closes_InformersStarted_after_starting_informers [OF eq]
  from shape have safe: "fst ?run \<noteq> Panicked" by (rule conjunct1)
  from shape [THEN conjunct2, rule_format, OF closes]
  obtain ctx before after where
    h: "length (informerFactories ctx) = 8"
       "fst (snd ?run) = before
          @ map (\<lambda>factory. Start (the factory)) (informerFactories ctx)
          @ [Close (length ([] :: chans))] @ after"
       "\<not> list_ex isStart before" "\<not> list_ex isClose before"
       "\<not> list_ex isStart after" "\<not> list_ex isClose after"
    by blast
  from calls_around_close [OF h(2) h(3) h(4) h(5) h(6)] h(1) safe
  show ?thesis by (simp add: beforeFirst_def fromFirst_def)
qed

text \<open>
  C5 as the specification states it fails in both parts. In the concrete configuration
  \<open>run\<close> starts informer factories before it closes \<^verbatim>\<open>InformersStarted\<close>, which is
  channel 0 there; and the channel is closed when \<open>run\<close> is done with it, so closing
  it once more panics.
\<close>

theorem run_starts_informers_before_closing_InformersStarted:
  "list_ex isStart (beforeFirst isClose
     (fst (snd (run sampleEnvironment sampleConfig sampleKarmadaBuilder sampleFireflyBuilder
                 None False (NewControllerInitializers sampleEnvironment) []))))
   \<and> Close 0 \<in> set
     (fst (snd (run sampleEnvironment sampleConfig sampleKarmadaBuilder sampleFireflyBuilder
                 None False (NewControllerInitializers sampleEnvironment) [])))
   \<and> close_chan (Some 0)
     (snd (snd (run sampleEnvironment sampleConfig sampleKarmadaBuilder sampleFireflyBuilder
                 None False (NewControllerInitializers sampleEnvironment) []))) = None"
proof -
  obtain ctx0 where
    len: "length (informerFactories ctx0) = 8"
    and r: "run sampleEnvironment sampleConfig sampleKarmadaBuilder sampleFireflyBuilder
                  None False (NewControllerInitializers sampleEnvironment) [] =
        (Blocked,
         [Sleep, Invoke ''estimator'', Sleep, Invoke ''node'', Sleep, Invoke ''kubean'',
          AddHealthChecker [NamedHealthChecker ''estimator'' (UnnamedHealthChecker ''probe'')]]
           @ map (\<lambda>factory. Start (the factory)) (informerFactories ctx0) @ [Close 0],
         [True])"
    using sample_run by blast
  from len obtain factory others where f: "informerFactories ctx0 = factory # others"
    by (cases "informerFactories ctx0") auto
  show ?thesis
    unfolding r by (simp add: f close_chan_def beforeFirst_def)
qed

lemma run_no_election:
  assumes "run env c kb fb mux ctxDone initializersFunc cs = (status, calls, cs')"
  shows "\<not> list_ex isMigrationLockElection calls"
proof -
  from run_shape [OF assms]
  consider
    (exited) "list_all madeByStartControllers calls"
  | (started) ctx loop where
      "StartControllers env ctx (rangeOrder env initializersFunc) mux = (None, loop)"
      "calls = loop @ map (\<lambda>factory. Start (the factory)) (informerFactories ctx)
                @ [Close (length cs)] @ (if ctxDone then [Receive CtxDone] else [])"
    by blast
  then show ?thesis
  proof cases
    case exited
    then show ?thesis by (simp add: madeByStartControllers_kinds)
  next
    case started
    have "list_all madeByStartControllers loop"
      using StartControllers_calls [of env ctx "rangeOrder env initializersFunc" mux]
      by (simp add: started(1))
    then have "\<not> list_ex isMigrationLockElection loop"
      by (simp add: madeByStartControllers_kinds)
    then show ?thesis
      by (simp add: started(2) starts_kinds)
  qed
qed

lemma no_election_before:
  "\<not> list_ex isMigrationLockElection calls \<Longrightarrow>
   \<not> list_ex isMigrationLockElection (takeWhile P calls)"
  by (auto simp: list_ex_iff dest: set_takeWhileD)

lemma RunLeaderElection_calls:
  assumes "RunLeaderElection env c stopCh = (status, calls)"
  shows "\<not> list_ex isMigrationLockElection
           (beforeFirst isMigrationReady calls)"
    and "list_ex isMigrationLockElection calls \<Longrightarrow>
           leadermigrationEnabled env (Generic (CompletedConfig.ComponentConfig c))
         \<and> MigrationReady (NewLeaderMigrator env
              (LeaderMigration (Generic (CompletedConfig.ComponentConfig c)))
              ''firefly-controller-manager'')"
    and "snd (Hostname env) = None \<Longrightarrow>
         leadermigrationEnabled env (Generic (CompletedConfig.ComponentConfig c)) \<Longrightarrow>
         MigrationReady (NewLeaderMigrator env
              (LeaderMigration (Generic (CompletedConfig.ComponentConfig c)))
              ''firefly-controller-manager'') \<Longrightarrow>
         length (filter isMigrationLockElection calls) = 1"
  using assms
  unfolding RunLeaderElection_def Let_def beforeFirst_def
  by (auto split: prod.splits option.splits if_splits)

text \<open>
  C6. In the calls of \<open>Run\<close>, no statement starting the election of the migration lock
  comes before the first completed receive from \<^verbatim>\<open>MigrationReady\<close> (none at all when
  there is no such receive). When the election of the migration lock is started, leader
  migration is enabled and the receive from \<^verbatim>\<open>MigrationReady\<close> has completed, that is,
  the signal has fired. And with leader election and leader migration enabled and the
  server and the host name without error, once the signal fires the election of the
  migration lock is started, once.
\<close>

theorem Run_starts_migration_lock_after_MigrationReady:
  assumes "Run env c stopCh cs = (status, calls, cs')"
  shows "\<not> list_ex isMigrationLockElection
           (beforeFirst isMigrationReady calls)
     \<and> (list_ex isMigrationLockElection calls \<longrightarrow>
           leadermigrationEnabled env (Generic (CompletedConfig.ComponentConfig c))
         \<and> MigrationReady (NewLeaderMigrator env
              (LeaderMigration (Generic (CompletedConfig.ComponentConfig c)))
              ''firefly-controller-manager''))
     \<and> (LeaderElect (LeaderElection (Generic (CompletedConfig.ComponentConfig c)))
         \<and> (case SecureServing c of None \<Rightarrow> True
             | Some secureServing \<Rightarrow> Serve secureServing = None)
         \<and> snd (Hostname env) = None
         \<and> leadermigrationEnabled env (Generic (CompletedConfig.ComponentConfig c))
         \<and> MigrationReady (NewLeaderMigrator env
              (LeaderMigration (Generic (CompletedConfig.ComponentConfig c)))
              ''firefly-controller-manager'') \<longrightarrow>
           length (filter isMigrationLockElection calls) = 1)"
proof -
  let ?healthz = "NewMutableHealthzHandler
      (if LeaderElect (LeaderElection (Generic (CompletedConfig.ComponentConfig c)))
       then [NewLeaderHealthzAdaptor (20 * 1000000000)] else [])"
  obtain mux where mux: "mux = (case SecureServing c of None \<Rightarrow> None
      | Some secureServing \<Rightarrow> Some NewBaseHandler)" by simp
  obtain st body cs2 where serving: "RunServing env c stopCh mux cs = (st, body, cs2)"
    by (cases "RunServing env c stopCh mux cs")
  consider
    (failed) secureServing err where "SecureServing c = Some secureServing"
      "Serve secureServing = Some err" "calls = [?healthz, ServeSecurely]"
  | (served) "case SecureServing c of None \<Rightarrow> True
             | Some secureServing \<Rightarrow> Serve secureServing = None"
      "calls = ?healthz # body \<or> calls = ?healthz # ServeSecurely # body"
    using assms serving unfolding Run_def Let_def mux
    by (auto split: option.splits prod.splits)
  then show ?thesis
  proof cases
    case failed
    then show ?thesis by (simp add: beforeFirst_def)
  next
    case served
    have body: "\<not> list_ex isMigrationLockElection
           (beforeFirst isMigrationReady body)
     \<and> (list_ex isMigrationLockElection body \<longrightarrow>
           leadermigrationEnabled env (Generic (CompletedConfig.ComponentConfig c))
         \<and> MigrationReady (NewLeaderMigrator env
              (LeaderMigration (Generic (CompletedConfig.ComponentConfig c)))
              ''firefly-controller-manager''))
     \<and> (LeaderElect (LeaderElection (Generic (CompletedConfig.ComponentConfig c)))
         \<and> snd (Hostname env) = None
         \<and> leadermigrationEnabled env (Generic (CompletedConfig.ComponentConfig c))
         \<and> MigrationReady (NewLeaderMigrator env
              (LeaderMigration (Generic (CompletedConfig.ComponentConfig c)))
              ''firefly-controller-manager'') \<longrightarrow>
           length (filter isMigrationLockElection body) = 1)"
    proof (cases "LeaderElect (LeaderElection (Generic (CompletedConfig.ComponentConfig c)))")
      case False
      with serving have "run env c (fst (createClientBuilders env c))
          (snd (createClientBuilders env c)) mux stopCh (NewControllerInitializers env) cs =
          (st, body, cs2)"
        by (simp add: RunServing_def split: prod.splits)
      from run_no_election [OF this] False show ?thesis
        by (simp add: no_election_before beforeFirst_def)
    next
      case True
      with serving have "RunLeaderElection env c stopCh = (st, body)"
        by (auto simp: RunServing_def split: prod.splits)
      from RunLeaderElection_calls [OF this] show ?thesis by blast
    qed
    from served(2) show ?thesis
    proof
      assume "calls = ?healthz # body"
      with body served(1) show ?thesis by (simp add: beforeFirst_def)
    next
      assume "calls = ?healthz # ServeSecurely # body"
      with body served(1) show ?thesis by (simp add: beforeFirst_def)
    qed
  qed
qed

theorem Run_starts_migration_lock_after_MigrationReady_witness:
  "\<not> list_ex isMigrationLockElection
      (beforeFirst isMigrationReady
         (fst (snd (Run migratingEnvironment electingConfig False []))))
   \<and> length (filter isMigrationLockElection
         (fst (snd (Run migratingEnvironment electingConfig False [])))) = 1
   \<and> \<not> list_ex isMigrationLockElection
         (fst (snd (Run sampleEnvironment electingConfig False [])))"
proof -
  let ?ready = "Run migratingEnvironment electingConfig False []"
  let ?never = "Run sampleEnvironment electingConfig False []"
  have config: "LeaderElect (LeaderElection (Generic (CompletedConfig.ComponentConfig electingConfig)))"
    "SecureServing electingConfig = None"
    by (simp_all add: electingConfig_def sampleConfig_def)
  have ready: "snd (Hostname migratingEnvironment) = None"
    "leadermigrationEnabled migratingEnvironment
       (Generic (CompletedConfig.ComponentConfig electingConfig))"
    "MigrationReady (NewLeaderMigrator migratingEnvironment
       (LeaderMigration (Generic (CompletedConfig.ComponentConfig electingConfig)))
       ''firefly-controller-manager'')"
    by (simp_all add: migratingEnvironment_def sampleEnvironment_def config)
  have never: "\<not> MigrationReady (NewLeaderMigrator sampleEnvironment
       (LeaderMigration (Generic (CompletedConfig.ComponentConfig electingConfig)))
       ''firefly-controller-manager'')"
    by (simp add: sampleEnvironment_def)
  have eq1: "?ready = (fst ?ready, fst (snd ?ready), snd (snd ?ready))" by simp
  have eq2: "?never = (fst ?never, fst (snd ?never), snd (snd ?never))" by simp
  note r = Run_starts_migration_lock_after_MigrationReady [OF eq1]
  note n = Run_starts_migration_lock_after_MigrationReady [OF eq2]
  from r have one: "\<not> list_ex isMigrationLockElection
      (beforeFirst isMigrationReady (fst (snd ?ready)))"
    by (rule conjunct1)
  from r [THEN conjunct2, THEN conjunct2] config ready
  have two: "length (filter isMigrationLockElection (fst (snd ?ready))) = 1"
    by simp
  from n [THEN conjunct2, THEN conjunct1] never
  have three: "\<not> list_ex isMigrationLockElection (fst (snd ?never))"
    by blast
  from one two three show ?thesis by simp
qed

section \<open>Properties of the resync period\<close>

subsection \<open>Values of sums and products\<close>





lemma roundShift_lower:
  assumes "A * 2 ^ s \<le> m"
  shows "A \<le> roundShift m s"
proof -
  have "A * 2 ^ s div 2 ^ s \<le> m div 2 ^ s"
    by (rule zdiv_mono1 [OF assms]) simp
  then have "A \<le> m div 2 ^ s" by simp
  then show ?thesis by (simp add: roundShift_def Let_def)
qed

lemma roundShift_upper:
  assumes "m \<le> B * 2 ^ s"
  shows "roundShift m s \<le> B"
proof -
  have q: "m div 2 ^ s \<le> B"
  proof -
    have "m div 2 ^ s \<le> B * 2 ^ s div 2 ^ s"
      by (rule zdiv_mono1 [OF assms]) simp
    then show ?thesis by simp
  qed
  show ?thesis
  proof (cases "m mod 2 ^ s = 0")
    case True
    then show ?thesis using q by (simp add: roundShift_def Let_def)
  next
    case False
    have nonneg: "0 \<le> m mod 2 ^ s" by simp
    with False have pos: "0 < m mod 2 ^ s" by linarith
    have "m = (m div 2 ^ s) * 2 ^ s + m mod 2 ^ s" by (rule div_mult_mod_eq [symmetric])
    with pos have "(m div 2 ^ s) * 2 ^ s < m" by linarith
    with assms have "(m div 2 ^ s) * 2 ^ s < B * 2 ^ s" by linarith
    then have "m div 2 ^ s < B" by simp
    then show ?thesis by (simp add: roundShift_def Let_def)
  qed
qed

subsection \<open>Rounding\<close>

text \<open>
  \<open>roundShift m s\<close> is a whole number nearest to \<open>m / 2 ^ s\<close>, and rounding keeps the
  order: a \<^verbatim>\<open>float64\<close> that is not above the exact result is not above the rounded one,
  and one that is not below is not below. The rounded result has the value of a
  \<^verbatim>\<open>float64\<close>, and a \<^verbatim>\<open>float64\<close> is rounded to itself.
\<close>

lemma roundShift_nearest:
  assumes "1 \<le> s"
  shows "2 * \<bar>roundShift m s * 2 ^ s - m\<bar> \<le> 2 ^ s"
proof -
  define q where "q = m div 2 ^ s"
  define r where "r = m mod 2 ^ s"
  define half where "half = (2::int) ^ (s - 1)"
  have m: "m = q * 2 ^ s + r" unfolding q_def r_def by (rule div_mult_mod_eq [symmetric])
  have r0: "0 \<le> r" and r1: "r < 2 ^ s" by (simp_all add: r_def)
  from assms have "s = Suc (s - 1)" by simp
  then have "(2::int) ^ s = 2 ^ Suc (s - 1)" by simp
  then have h: "(2::int) ^ s = 2 * half" by (simp add: half_def)
  have R: "roundShift m s = (if r < half \<or> (r = half \<and> even q) then q else q + 1)"
    by (simp add: roundShift_def Let_def q_def r_def half_def)
  show ?thesis
  proof (cases "r < half \<or> (r = half \<and> even q)")
    case True
    then have "roundShift m s * 2 ^ s - m = - r" using R m by simp
    with True r0 show ?thesis by (auto simp: h)
  next
    case False
    then have "roundShift m s * 2 ^ s - m = 2 ^ s - r" using R m by (simp add: algebra_simps)
    with False r0 r1 show ?thesis by (auto simp: h)
  qed
qed




lemma shifted_powr': "2 powr (real_of_int E + real s) = 2 ^ s * 2 powr real_of_int E"
  by (simp add: powr_add powr_realpow)

lemma shifted_powr: "2 powr real_of_int (E + int s) = 2 ^ s * 2 powr real_of_int E"
  by (simp add: shifted_powr')







lemma round53_isFloat64:
  "\<exists>y. isFloat64 y \<and> float64_value y = float64_value (round53 x)"
proof (cases "bitlen \<bar>fst x\<bar> \<le> 53")
  case True
  have "\<bar>fst x\<bar> < 2 ^ 53"
  proof (cases "fst x = 0")
    case False
    then have "0 < \<bar>fst x\<bar>" by simp
    from bitlen_bounds [OF this] have "\<bar>fst x\<bar> < 2 ^ nat (bitlen \<bar>fst x\<bar>)" by simp
    also have "(2::int) ^ nat (bitlen \<bar>fst x\<bar>) \<le> 2 ^ 53"
    proof (rule power_increasing)
      show "nat (bitlen \<bar>fst x\<bar>) \<le> 53" using True by simp
    qed simp
    finally show ?thesis .
  qed simp
  then have "isFloat64 (round53 x)" using True by (simp add: round53_def Let_def isFloat64_def)
  then show ?thesis by blast
next
  case False
  define s where "s = nat (bitlen \<bar>fst x\<bar> - 53)"
  define R where "R = roundShift (fst x) s"
  from False have s: "int s = bitlen \<bar>fst x\<bar> - 53" by (simp add: s_def)
  have r: "round53 x = (R, snd x + int s)"
    using False by (simp add: round53_def Let_def s s_def R_def)
  from False have "fst x \<noteq> 0" by (auto simp: bitlen_alt_def)
  then have "0 < \<bar>fst x\<bar>" by simp
  from bitlen_bounds [OF this] have "\<bar>fst x\<bar> < 2 ^ nat (bitlen \<bar>fst x\<bar>)" by simp
  moreover have "nat (bitlen \<bar>fst x\<bar>) = 53 + s" using False by (simp add: s_def)
  ultimately have "\<bar>fst x\<bar> < 2 ^ (53 + s)" by simp
  then have lt: "\<bar>fst x\<bar> < 2 ^ 53 * 2 ^ s" by (simp only: power_add)
  from lt have below: "- (2 ^ 53) * 2 ^ s \<le> fst x" and above: "fst x \<le> 2 ^ 53 * 2 ^ s"
    by simp_all
  have "- (2 ^ 53) \<le> R" unfolding R_def by (rule roundShift_lower [OF below])
  moreover have "R \<le> 2 ^ 53" unfolding R_def by (rule roundShift_upper [OF above])
  ultimately consider "\<bar>R\<bar> < 2 ^ 53" | "R = 2 ^ 53" | "R = - (2 ^ 53)" by linarith
  then show ?thesis
  proof cases
    case 1
    then have "isFloat64 (round53 x)" by (simp add: r isFloat64_def)
    then show ?thesis by blast
  next
    case 2
    have "isFloat64 (1, snd x + int s + 53)" by (simp add: isFloat64_def)
    moreover have "float64_value (1, snd x + int s + 53) = float64_value (round53 x)"
      using shifted_powr [of "snd x + int s" 53] by (simp add: r 2 float64_value_def)
    ultimately show ?thesis by blast
  next
    case 3
    have "isFloat64 (- 1, snd x + int s + 53)" by (simp add: isFloat64_def)
    moreover have "float64_value (- 1, snd x + int s + 53) = float64_value (round53 x)"
      using shifted_powr [of "snd x + int s" 53] by (simp add: r 3 float64_value_def)
    ultimately show ?thesis by blast
  qed
qed

lemma round53_of_float64: "isFloat64 x \<Longrightarrow> round53 x = x"
proof -
  assume a: "isFloat64 x"
  have "bitlen \<bar>fst x\<bar> \<le> 53"
  proof (cases "fst x = 0")
    case False
    then have pos: "0 < \<bar>fst x\<bar>" by simp
    from a have "\<bar>fst x\<bar> < 2 ^ 53" by (simp add: isFloat64_def)
    with bitlen_bounds [OF pos] have "(2::int) ^ nat (bitlen \<bar>fst x\<bar> - 1) < 2 ^ 53" by linarith
    then have "nat (bitlen \<bar>fst x\<bar> - 1) < 53" by (rule power_less_imp_less_exp [rotated]) simp
    then show ?thesis by simp
  qed (simp add: bitlen_alt_def)
  then show ?thesis by (simp add: round53_def Let_def)
qed

subsection \<open>The closure of ResyncPeriod\<close>























end
